theory Spec2Isabelle
  imports Complex_Main
begin

section \<open>Cross-section tools: data model\<close>

text \<open>
  The repository holds two geoprocessing scripts, \<^verbatim>\<open>Create2Dpoints_SWL.py\<close> (static water
  level points) and \<^verbatim>\<open>CreateConspys.py\<close> (well construction sticks). Both run top to bottom:
  parameter checks, row-count checks, creation of the output feature classes, extension of
  the cross-section lines, near analysis per cross-section line, merge, and geometry
  creation. The model follows that order section by section.

  Python floats are modelled as \<open>real\<close> (no rounding), Python integers as \<open>int\<close>, a nullable
  field as an \<open>option\<close>, a feature class or table as the list of its rows in cursor order.
\<close>

type_synonym point = "real \<times> real"

datatype error = SystemExit | IndexError | ZeroDivisionError | NameError

text \<open>A well id is numeric or text; the scripts match well ids by equality in a where-clause.\<close>

datatype wellid = NumId int | TextId string

text \<open>A row of the cross-section line feature class: the vertices of part 0 of its shape
  (\<^verbatim>\<open>line[0].getPart(0)\<close>) and its cross-section id.\<close>

record xsln_row =
  shape :: "point list"
  et_id :: string

text \<open>A row of the well point feature class, with the fields the scripts read: the object
  id, the well id, the cross-section id, the true coordinates (\<^verbatim>\<open>SHAPE@X\<close>, \<^verbatim>\<open>SHAPE@Y\<close>) and,
  for the static water level script, the nullable attribute fields.\<close>

record wwpt_row =
  oid :: int
  wellid :: wellid
  etid :: string
  xy :: point
  elevation :: "real option"
  meas_elev :: "real option"
  measuremt :: "real option"
  Data_Source :: "string option"

text \<open>A row of a per-line well file and of \<^verbatim>\<open>wwpt_merge\<close>: the well row with the fields that the
  near analysis and the line measuring fill in.\<close>

record merged_row = wwpt_row +
  NEAR_DIST :: real
  NEAR_X :: real
  NEAR_Y :: real
  OnLine_DIST :: real

text \<open>A row of the construction table.\<close>

record conspy_row =
  conspy_oid :: int
  conspy_wellid :: wellid
  elev_top :: "real option"
  elev_bot :: "real option"

text \<open>The messages the scripts print that the properties below speak about.\<close>

datatype message =
    Error_buffer_dist
  | Error_vertical_exaggeration
  | Error_conspy_empty
  | Error_wwpt_empty
  | Error_xsln_empty
  | Skip_null_elevation wellid
  | Skip_null_meas_elev wellid
  | Skip_null_elev_top int
  | Skip_null_elev_bot int
  | No_match_report nat

section \<open>The planar geometry calls\<close>

text \<open>
  \<^verbatim>\<open>angleAndDistanceTo\<close>, \<^verbatim>\<open>pointFromAngleAndDistance\<close>, \<^verbatim>\<open>Near\<close> and \<^verbatim>\<open>measureOnLine\<close> belong to the
  geometry library the scripts call; their code is not part of the repository. They are
  modelled by their planar meaning over the reals.
\<close>

definition dist_pt :: "point \<Rightarrow> point \<Rightarrow> real" where
  "dist_pt p q = sqrt ((fst q - fst p) * (fst q - fst p) + (snd q - snd p) * (snd q - snd p))"

text \<open>
  Modelled from the spec: the library's \<^verbatim>\<open>angleAndDistanceTo(other, "PLANAR")\<close>, which is
  absent from the sources. It returns the angle and the distance from a point to another
  one. The angle (a bearing, clockwise from north) is represented by its unit vector
  \<open>(sin, cos)\<close>; for two equal points the bearing is taken as 0, the vector \<open>(0, 1)\<close>.
\<close>

definition angleAndDistanceTo :: "point \<Rightarrow> point \<Rightarrow> (real \<times> real) \<times> real" where
  "angleAndDistanceTo p q =
     (let d = dist_pt p q in
      if d = 0 then ((0, 1), 0)
      else (((fst q - fst p) / d, (snd q - snd p) / d), d))"

text \<open>
  Modelled from the spec: the library's \<^verbatim>\<open>pointFromAngleAndDistance(angle, distance, 'PLANAR')\<close>,
  absent from the sources: the point at the given distance from this one along the bearing.
\<close>

definition pointFromAngleAndDistance :: "point \<Rightarrow> real \<times> real \<Rightarrow> real \<Rightarrow> point" where
  "pointFromAngleAndDistance p ang d = (fst p + d * fst ang, snd p + d * snd ang)"

section \<open>Extension of the cross-section lines (both scripts, the same code)\<close>

text \<open>
  \<^verbatim>\<open>geompointlist[0]\<close>, \<^verbatim>\<open>[1]\<close>, \<^verbatim>\<open>[-1]\<close> and \<^verbatim>\<open>[-2]\<close> raise IndexError on a list that is too
  short: on no vertex the read of index 0 fails, on one vertex the read of index 1.
  Both angles and both new points are computed before the two list assignments.
\<close>

definition extend_line :: "int \<Rightarrow> point list \<Rightarrow> error + point list" where
  "extend_line buffer_dist geompointlist =
     (if length geompointlist < 2 then Inl IndexError
      else
        let beg_pt = geompointlist ! 0;
            beg_pt2 = geompointlist ! 1;
            beg_angle = fst (angleAndDistanceTo beg_pt2 beg_pt);
            end_pt = geompointlist ! (length geompointlist - 1);
            end_pt2 = geompointlist ! (length geompointlist - 2);
            end_angle = fst (angleAndDistanceTo end_pt2 end_pt);
            new_beg = pointFromAngleAndDistance beg_pt beg_angle (real_of_int buffer_dist);
            new_end = pointFromAngleAndDistance end_pt end_angle (real_of_int buffer_dist)
        in Inr ((geompointlist[0 := new_beg])[length geompointlist - 1 := new_end]))"

text \<open>The loop over the rows of the line file: one row inserted into \<^verbatim>\<open>xsln_temp\<close> per row
  read, with the same \<^verbatim>\<open>et_id\<close>; an exception stops the loop.\<close>

fun extend_lines :: "int \<Rightarrow> xsln_row list \<Rightarrow> xsln_row list \<Rightarrow> error option \<times> xsln_row list" where
  "extend_lines buffer_dist [] xsln_temp = (None, xsln_temp)"
| "extend_lines buffer_dist (line # rest) xsln_temp =
     (case extend_line buffer_dist (shape line) of
        Inl e \<Rightarrow> (Some e, xsln_temp)
      | Inr pointlist \<Rightarrow>
          extend_lines buffer_dist rest (xsln_temp @ [\<lparr>shape = pointlist, et_id = et_id line\<rparr>]))"

section \<open>Near analysis and line measuring (both scripts, the same code)\<close>

text \<open>
  Modelled from the spec: the library's \<^verbatim>\<open>Near\<close> tool and \<^verbatim>\<open>measureOnLine\<close>, absent from the
  sources. The spec's kernel contract: given a polyline and a query point, the point of
  the polyline closest to the query point (Euclidean, planar), the distance between the
  two, and the arc length from the polyline's first vertex to that closest point. The
  closest point is searched segment by segment; among equally near segments the first
  one along the line is taken.
\<close>

definition closest_on_segment :: "point \<Rightarrow> point \<Rightarrow> point \<Rightarrow> point" where
  "closest_on_segment a b q =
     (let vx = fst b - fst a; vy = snd b - snd a; l2 = vx * vx + vy * vy in
      if l2 = 0 then a
      else
        let t = max 0 (min 1 (((fst q - fst a) * vx + (snd q - snd a) * vy) / l2))
        in (fst a + t * vx, snd a + t * vy))"

text \<open>A candidate of a segment: distance from the query point, closest point, and the
  measure of that point from the start of the line (\<open>m\<close> is the measure of the segment's
  first vertex).\<close>

definition candidate :: "real \<Rightarrow> point \<Rightarrow> point \<Rightarrow> point \<Rightarrow> real \<times> point \<times> real" where
  "candidate m a b q = (let n = closest_on_segment a b q in (dist_pt q n, n, m + dist_pt a n))"

fun segment_candidates :: "real \<Rightarrow> point list \<Rightarrow> point \<Rightarrow> (real \<times> point \<times> real) list" where
  "segment_candidates m (a # b # rest) q =
     candidate m a b q # segment_candidates (m + dist_pt a b) (b # rest) q"
| "segment_candidates m [a] q = []"
| "segment_candidates m [] q = []"

fun pick_nearest :: "real \<times> point \<times> real \<Rightarrow> (real \<times> point \<times> real) list \<Rightarrow> real \<times> point \<times> real" where
  "pick_nearest c [] = c"
| "pick_nearest c (d # ds) = pick_nearest (if fst d < fst c then d else c) ds"

text \<open>A geometry without a segment has nothing to be near to: the library reports \<open>-1\<close> in
  the near fields then. The lines of \<^verbatim>\<open>xsln_temp\<close> always have two vertices or more.\<close>

definition nearest_on_line :: "point list \<Rightarrow> point \<Rightarrow> real \<times> point \<times> real" where
  "nearest_on_line xsln_geometry q =
     (case segment_candidates 0 xsln_geometry q of
        [] \<Rightarrow> (-1, (-1, -1), 0)
      | c # cs \<Rightarrow> pick_nearest c cs)"

definition measureOnLine :: "point list \<Rightarrow> point \<Rightarrow> real" where
  "measureOnLine xsln_geometry p = snd (snd (nearest_on_line xsln_geometry p))"


text \<open>
  The body of the update cursor: \<^verbatim>\<open>Near\<close> fills \<^verbatim>\<open>NEAR_X\<close>, \<^verbatim>\<open>NEAR_Y\<close> and \<^verbatim>\<open>NEAR_DIST\<close> of the
  well against the extended line, then \<^verbatim>\<open>measureOnLine\<close> measures the near point along the
  extended line and \<^verbatim>\<open>well[3] = n - buffer_dist\<close> is stored in \<^verbatim>\<open>OnLine_DIST\<close>.
\<close>

definition locate_well :: "int \<Rightarrow> point list \<Rightarrow> wwpt_row \<Rightarrow> merged_row" where
  "locate_well buffer_dist xsln_geometry well =
     (let near = nearest_on_line xsln_geometry (xy well);
          x = fst (fst (snd near));
          y = snd (fst (snd near));
          n = measureOnLine xsln_geometry (x, y)
      in wwpt_row.extend well
           (merged_row.fields (fst near) x y (n - real_of_int buffer_dist)))"

text \<open>The feature dataset \<^verbatim>\<open>wwpt_by_xs\<close>: the per-line well files by cross-section id (the
  file of a line is \<^verbatim>\<open>wwpt_<et_id>\<close>). Outputs are overwritten (\<^verbatim>\<open>overwriteOutput = True\<close>), so a
  second line with the same id replaces the file of the first.\<close>

fun put_file :: "string \<Rightarrow> merged_row list \<Rightarrow> (string \<times> merged_row list) list
    \<Rightarrow> (string \<times> merged_row list) list" where
  "put_file k rows [] = [(k, rows)]"
| "put_file k rows ((k', rows') # fd) =
     (if k' = k then (k, rows) # fd else (k', rows') # put_file k rows fd)"

text \<open>The loop over the lines of \<^verbatim>\<open>xsln_temp\<close>: the wells whose cross-section id equals the
  line's are selected into the line's file and located against that line.\<close>

fun near_analysis :: "int \<Rightarrow> wwpt_row list \<Rightarrow> xsln_row list
    \<Rightarrow> (string \<times> merged_row list) list \<Rightarrow> (string \<times> merged_row list) list" where
  "near_analysis buffer_dist wwpt_file_temp [] fd = fd"
| "near_analysis buffer_dist wwpt_file_temp (line # rest) fd =
     near_analysis buffer_dist wwpt_file_temp rest
       (put_file (et_id line)
          (map (locate_well buffer_dist (shape line))
             (filter (\<lambda>well. etid well = et_id line) wwpt_file_temp))
          fd)"

definition merge_files :: "(string \<times> merged_row list) list \<Rightarrow> merged_row list" where
  "merge_files fd = concat (map snd fd)"

section \<open>Static water level script: 2D point geometry\<close>

text \<open>Python's \<^verbatim>\<open>int()\<close> of a float drops the fractional part (rounds toward zero).\<close>

definition py_int :: "real \<Rightarrow> int" where
  "py_int x = (if 0 \<le> x then \<lfloor>x\<rfloor> else \<lceil>x\<rceil>)"

text \<open>A row of the output point file \<^verbatim>\<open>swl_2d_xsecview\<close>, in the order of the insert cursor's
  field list.\<close>

record swl_point =
  pt_geometry :: point
  pt_wellid :: wellid
  pt_etid :: string
  pt_x_coord :: real
  pt_y_coord :: real
  pt_x_coord_2d :: real
  pt_y_coord_2d :: real
  pt_distance :: real
  pt_elevation :: real
  pt_meas_elev :: real
  pt_pct_dist :: real
  pt_measuremt :: "real option"
  pt_BUFF_DIST :: int
  pt_VE :: int
  pt_Data_Source :: "string option"

text \<open>The state of a run of the static water level script: what has been created in the
  output workspace, the messages printed, and the contents of the files written.\<close>

record swl_run =
  created :: "string list"
  messages :: "message list"
  xsln_temp :: "xsln_row list"
  wwpt_merge :: "merged_row list"
  pointfile :: "swl_point list"

text \<open>
  The body of the loop over \<^verbatim>\<open>wwpt_merge\<close>. \<^verbatim>\<open>pct_dist\<close> is computed before the null checks;
  a division by an integer 0 raises ZeroDivisionError.
\<close>

definition swl_well :: "int \<Rightarrow> int \<Rightarrow> merged_row \<Rightarrow> swl_run \<Rightarrow> error + swl_run" where
  "swl_well buffer_dist vertical_exaggeration well st =
     (if buffer_dist = 0 then Inl ZeroDivisionError
      else
        let dist = NEAR_DIST well;
            pct_dist = dist / real_of_int buffer_dist * 200;
            real_x = fst (xy well);
            real_y = snd (xy well)
        in case elevation well of
             None \<Rightarrow> Inr (st\<lparr>messages := messages st @ [Skip_null_elevation (wellid well)]\<rparr>)
           | Some well_z \<Rightarrow>
               (case meas_elev well of
                  None \<Rightarrow> Inr (st\<lparr>messages := messages st @ [Skip_null_meas_elev (wellid well)]\<rparr>)
                | Some swl_z \<Rightarrow>
                    let x_coord_meters = OnLine_DIST well;
                        x_coord_feet = real_of_int (py_int x_coord_meters) / 0.3048
                    in if vertical_exaggeration = 0 then Inl ZeroDivisionError
                       else
                         let x_coord_2d = x_coord_feet / real_of_int vertical_exaggeration;
                             y_coord_2d = swl_z
                         in Inr (st\<lparr>pointfile := pointfile st @
                              [\<lparr>pt_geometry = (x_coord_2d, y_coord_2d),
                                pt_wellid = wellid well,
                                pt_etid = etid well,
                                pt_x_coord = real_x,
                                pt_y_coord = real_y,
                                pt_x_coord_2d = x_coord_2d,
                                pt_y_coord_2d = y_coord_2d,
                                pt_distance = dist,
                                pt_elevation = well_z,
                                pt_meas_elev = swl_z,
                                pt_pct_dist = pct_dist,
                                pt_measuremt = measuremt well,
                                pt_BUFF_DIST = buffer_dist,
                                pt_VE = vertical_exaggeration,
                                pt_Data_Source = Data_Source well\<rparr>]\<rparr>)))"

fun swl_wells :: "int \<Rightarrow> int \<Rightarrow> merged_row list \<Rightarrow> swl_run \<Rightarrow> error option \<times> swl_run" where
  "swl_wells buffer_dist vertical_exaggeration [] st = (None, st)"
| "swl_wells buffer_dist vertical_exaggeration (well # rest) st =
     (case swl_well buffer_dist vertical_exaggeration well st of
        Inl e \<Rightarrow> (Some e, st)
      | Inr st' \<Rightarrow> swl_wells buffer_dist vertical_exaggeration rest st')"

text \<open>
  The script from the parameter checks to the end of the geometry loop, in the order
  of the source: the checks of \<^verbatim>\<open>buffer_dist\<close> and \<^verbatim>\<open>vertical_exaggeration\<close>, the row counts of the
  well file and of the line file, the creation of the output point file and of the
  temporary files, the extension of the lines, the near analysis, the merge and the
  geometry loop. The checks before them (spatial reference, multipart shapes, field names)
  only print. The sections after the loop (field deletion, projected copy, cleanup) are
  calls of the library that no property below speaks about.
\<close>

definition Create2Dpoints_SWL :: "int \<Rightarrow> int \<Rightarrow> wwpt_row list \<Rightarrow> xsln_row list
    \<Rightarrow> error option \<times> swl_run" where
  "Create2Dpoints_SWL buffer_dist vertical_exaggeration wwpt_file_orig xsln_file_orig =
     (let st0 = \<lparr>created = [], messages = [], xsln_temp = [], wwpt_merge = [], pointfile = []\<rparr>
      in if buffer_dist \<le> 0 then (Some SystemExit, st0\<lparr>messages := [Error_buffer_dist]\<rparr>)
      else if vertical_exaggeration \<le> 0 then
        (Some SystemExit, st0\<lparr>messages := [Error_vertical_exaggeration]\<rparr>)
      else if length wwpt_file_orig = 0 then
        (Some SystemExit, st0\<lparr>messages := [Error_wwpt_empty]\<rparr>)
      else if length xsln_file_orig = 0 then
        (Some SystemExit, st0\<lparr>messages := [Error_xsln_empty]\<rparr>)
      else
        let st1 = st0\<lparr>created := [''swl_2d_xsecview'', ''wwpt_by_xs'', ''wwpt_temp'', ''xsln_temp'']\<rparr>
        in case extend_lines buffer_dist xsln_file_orig [] of
             (Some e, lines) \<Rightarrow> (Some e, st1\<lparr>xsln_temp := lines\<rparr>)
           | (None, lines) \<Rightarrow>
               let fd = near_analysis buffer_dist wwpt_file_orig lines [];
                   st2 = st1\<lparr>created := created st1 @ map (\<lambda>f. ''wwpt_'' @ fst f) fd @ [''wwpt_merge''],
                            xsln_temp := lines,
                            wwpt_merge := merge_files fd\<rparr>
               in swl_wells buffer_dist vertical_exaggeration (merge_files fd) st2)"

section \<open>Construction script: 3D and 2D polyline geometry\<close>

text \<open>The variables that the inner loop over the matching well points assigns.\<close>

record well_vars =
  real_x :: real
  real_y :: real
  x_coord :: real
  dist_xsln :: real
  pct_dist :: real
  well_et_id :: string

text \<open>Rows of \<^verbatim>\<open>conspys_3d\<close> and of \<^verbatim>\<open>conspys_2d_line\<close>, in the order of the insert cursors'
  field lists; a 3D vertex is \<open>((x, y), z)\<close>.\<close>

record line_3d =
  l3_geometry :: "(point \<times> real) list"
  l3_wellid :: wellid
  l3_et_id :: string
  l3_x_coord :: real
  l3_y_coord :: real
  l3_z_top :: real
  l3_z_bot :: real
  l3_conspy_oid :: int

record line_2d =
  l2_geometry :: "point list"
  l2_wellid :: wellid
  l2_et_id :: string
  l2_x_coord :: real
  l2_y_coord :: real
  l2_z_top :: real
  l2_z_bot :: real
  l2_conspy_oid :: int
  l2_distance :: real
  l2_pct_dist :: real
  l2_BUFF_DIST :: int
  l2_VE :: int

record conspy_run =
  c_created :: "string list"
  c_messages :: "message list"
  c_xsln_temp :: "xsln_row list"
  c_wwpt_merge :: "merged_row list"
  nomatch_list :: "wellid list"
  polylinefile_3d :: "line_3d list"
  polylinefile_2d :: "line_2d list"

text \<open>
  The inner loop: the search cursor over \<^verbatim>\<open>wwpt_merge\<close> with the where-clause on the well id
  yields the rows whose well id equals the record's; each one counts in \<open>i\<close> and overwrites
  the variables, so the last matching row decides them.
\<close>

fun wwpt_loop :: "int \<Rightarrow> int \<Rightarrow> merged_row list \<Rightarrow> nat \<times> well_vars option
    \<Rightarrow> error + nat \<times> well_vars option" where
  "wwpt_loop buffer_dist vertical_exaggeration [] acc = Inr acc"
| "wwpt_loop buffer_dist vertical_exaggeration (well # rest) (i, vars) =
     (let x_coord_meters = OnLine_DIST well;
          x_coord_feet = x_coord_meters / 0.3048
      in if vertical_exaggeration = 0 then Inl ZeroDivisionError
         else if buffer_dist = 0 then Inl ZeroDivisionError
         else wwpt_loop buffer_dist vertical_exaggeration rest
                (i + 1,
                 Some \<lparr>real_x = fst (xy well),
                       real_y = snd (xy well),
                       x_coord = x_coord_feet / real_of_int vertical_exaggeration,
                       dist_xsln = NEAR_DIST well,
                       pct_dist = NEAR_DIST well / real_of_int buffer_dist * 200,
                       well_et_id = etid well\<rparr>))"

text \<open>The body of the loop over the construction table. The variables of the inner loop
  are read after \<^verbatim>\<open>if i == 0: ... continue\<close>, so they are the ones set in this iteration (an
  unset variable would be a NameError; the inner loop never leaves that case behind).\<close>

definition conspy_record :: "int \<Rightarrow> int \<Rightarrow> merged_row list \<Rightarrow> conspy_row \<Rightarrow> conspy_run
    \<Rightarrow> error + conspy_run" where
  "conspy_record buffer_dist vertical_exaggeration merged row st =
     (case elev_top row of
        None \<Rightarrow> Inr (st\<lparr>c_messages := c_messages st @ [Skip_null_elev_top (conspy_oid row)]\<rparr>)
      | Some real_z_top \<Rightarrow>
          (case elev_bot row of
             None \<Rightarrow> Inr (st\<lparr>c_messages := c_messages st @ [Skip_null_elev_bot (conspy_oid row)]\<rparr>)
           | Some real_z_bot \<Rightarrow>
               (case wwpt_loop buffer_dist vertical_exaggeration
                       (filter (\<lambda>well. wellid well = conspy_wellid row) merged) (0, None) of
                  Inl e \<Rightarrow> Inl e
                | Inr (i, vars) \<Rightarrow>
                    if i = 0
                    then Inr (st\<lparr>nomatch_list := nomatch_list st @ [conspy_wellid row]\<rparr>)
                    else
                      (case vars of
                         None \<Rightarrow> Inl NameError
                       | Some v \<Rightarrow>
                         Inr (st\<lparr>polylinefile_3d := polylinefile_3d st @
                                  [\<lparr>l3_geometry = [((real_x v, real_y v), real_z_top),
                                                   ((real_x v, real_y v), real_z_bot)],
                                    l3_wellid = conspy_wellid row,
                                    l3_et_id = well_et_id v,
                                    l3_x_coord = real_x v,
                                    l3_y_coord = real_y v,
                                    l3_z_top = real_z_top,
                                    l3_z_bot = real_z_bot,
                                    l3_conspy_oid = conspy_oid row\<rparr>],
                                polylinefile_2d := polylinefile_2d st @
                                  [\<lparr>l2_geometry = [(x_coord v, real_z_top), (x_coord v, real_z_bot)],
                                    l2_wellid = conspy_wellid row,
                                    l2_et_id = well_et_id v,
                                    l2_x_coord = real_x v,
                                    l2_y_coord = real_y v,
                                    l2_z_top = real_z_top,
                                    l2_z_bot = real_z_bot,
                                    l2_conspy_oid = conspy_oid row,
                                    l2_distance = dist_xsln v,
                                    l2_pct_dist = pct_dist v,
                                    l2_BUFF_DIST = buffer_dist,
                                    l2_VE = vertical_exaggeration\<rparr>]\<rparr>)))))"

fun conspy_records :: "int \<Rightarrow> int \<Rightarrow> merged_row list \<Rightarrow> conspy_row list \<Rightarrow> conspy_run
    \<Rightarrow> error option \<times> conspy_run" where
  "conspy_records buffer_dist vertical_exaggeration merged [] st = (None, st)"
| "conspy_records buffer_dist vertical_exaggeration merged (row # rest) st =
     (case conspy_record buffer_dist vertical_exaggeration merged row st of
        Inl e \<Rightarrow> (Some e, st)
      | Inr st' \<Rightarrow> conspy_records buffer_dist vertical_exaggeration merged rest st')"

text \<open>After the loop: the number of records without a matching well point is printed when
  there is one at least.\<close>

definition report_nomatch :: "conspy_run \<Rightarrow> conspy_run" where
  "report_nomatch st =
     (if length (nomatch_list st) > 0
      then st\<lparr>c_messages := c_messages st @ [No_match_report (length (nomatch_list st))]\<rparr>
      else st)"

definition polyline_geometry :: "int \<Rightarrow> int \<Rightarrow> merged_row list \<Rightarrow> conspy_row list \<Rightarrow> conspy_run
    \<Rightarrow> error option \<times> conspy_run" where
  "polyline_geometry buffer_dist vertical_exaggeration merged conspy_table st =
     (case conspy_records buffer_dist vertical_exaggeration merged conspy_table
             (st\<lparr>nomatch_list := []\<rparr>) of
        (Some e, st') \<Rightarrow> (Some e, st')
      | (None, st') \<Rightarrow> (None, report_nomatch st'))"

text \<open>
  The script from the parameter checks to the end of the geometry loop, in the order of
  the source: the checks of \<^verbatim>\<open>buffer_dist\<close> and \<^verbatim>\<open>vertical_exaggeration\<close>, the row counts of the
  construction table, of the well file and of the line file, the creation of the two
  polyline files and of the temporary files, the extension of the lines, the near
  analysis, the merge and the geometry loop.
\<close>

definition CreateConspys :: "int \<Rightarrow> int \<Rightarrow> conspy_row list \<Rightarrow> wwpt_row list \<Rightarrow> xsln_row list
    \<Rightarrow> error option \<times> conspy_run" where
  "CreateConspys buffer_dist vertical_exaggeration conspy_table wwpt_file_orig xsln_file_orig =
     (let st0 = \<lparr>c_created = [], c_messages = [], c_xsln_temp = [], c_wwpt_merge = [],
                  nomatch_list = [], polylinefile_3d = [], polylinefile_2d = []\<rparr>
      in if buffer_dist \<le> 0 then (Some SystemExit, st0\<lparr>c_messages := [Error_buffer_dist]\<rparr>)
      else if vertical_exaggeration \<le> 0 then
        (Some SystemExit, st0\<lparr>c_messages := [Error_vertical_exaggeration]\<rparr>)
      else if length conspy_table = 0 then
        (Some SystemExit, st0\<lparr>c_messages := [Error_conspy_empty]\<rparr>)
      else if length wwpt_file_orig = 0 then
        (Some SystemExit, st0\<lparr>c_messages := [Error_wwpt_empty]\<rparr>)
      else if length xsln_file_orig = 0 then
        (Some SystemExit, st0\<lparr>c_messages := [Error_xsln_empty]\<rparr>)
      else
        let st1 = st0\<lparr>c_created := [''conspys_3d'', ''conspys_2d_line'', ''wwpt_by_xs'',
                                    ''wwpt_temp'', ''xsln_temp'']\<rparr>
        in case extend_lines buffer_dist xsln_file_orig [] of
             (Some e, lines) \<Rightarrow> (Some e, st1\<lparr>c_xsln_temp := lines\<rparr>)
           | (None, lines) \<Rightarrow>
               let fd = near_analysis buffer_dist wwpt_file_orig lines [];
                   st2 = st1\<lparr>c_created := c_created st1 @ map (\<lambda>f. ''wwpt_'' @ fst f) fd
                                                @ [''wwpt_merge''],
                            c_xsln_temp := lines,
                            c_wwpt_merge := merge_files fd\<rparr>
               in polyline_geometry buffer_dist vertical_exaggeration (merge_files fd)
                    conspy_table st2)"

section \<open>The loops in closed form\<close>

text \<open>
  What one pass of a geometry loop writes, as functions of the row read, for stating the
  properties: the output row of a well (none when the well is skipped), the message of a
  skipped row, the variables the inner loop of the construction script leaves behind, the
  well points matching a construction record, and the rows a construction record produces.
\<close>

definition swl_point_of :: "int \<Rightarrow> int \<Rightarrow> merged_row \<Rightarrow> swl_point option" where
  "swl_point_of buffer_dist vertical_exaggeration well =
     (case elevation well of
        None \<Rightarrow> None
      | Some well_z \<Rightarrow>
          (case meas_elev well of
             None \<Rightarrow> None
           | Some swl_z \<Rightarrow>
               Some \<lparr>pt_geometry =
                        (real_of_int (py_int (OnLine_DIST well)) / 0.3048
                           / real_of_int vertical_exaggeration, swl_z),
                     pt_wellid = wellid well,
                     pt_etid = etid well,
                     pt_x_coord = fst (xy well),
                     pt_y_coord = snd (xy well),
                     pt_x_coord_2d =
                        real_of_int (py_int (OnLine_DIST well)) / 0.3048
                           / real_of_int vertical_exaggeration,
                     pt_y_coord_2d = swl_z,
                     pt_distance = NEAR_DIST well,
                     pt_elevation = well_z,
                     pt_meas_elev = swl_z,
                     pt_pct_dist = NEAR_DIST well / real_of_int buffer_dist * 200,
                     pt_measuremt = measuremt well,
                     pt_BUFF_DIST = buffer_dist,
                     pt_VE = vertical_exaggeration,
                     pt_Data_Source = Data_Source well\<rparr>))"

definition swl_skip_message :: "merged_row \<Rightarrow> message option" where
  "swl_skip_message well =
     (case elevation well of
        None \<Rightarrow> Some (Skip_null_elevation (wellid well))
      | Some well_z \<Rightarrow>
          (case meas_elev well of
             None \<Rightarrow> Some (Skip_null_meas_elev (wellid well))
           | Some swl_z \<Rightarrow> None))"

definition well_vars_of :: "int \<Rightarrow> int \<Rightarrow> merged_row \<Rightarrow> well_vars" where
  "well_vars_of buffer_dist vertical_exaggeration well =
     \<lparr>real_x = fst (xy well),
      real_y = snd (xy well),
      x_coord = OnLine_DIST well / 0.3048 / real_of_int vertical_exaggeration,
      dist_xsln = NEAR_DIST well,
      pct_dist = NEAR_DIST well / real_of_int buffer_dist * 200,
      well_et_id = etid well\<rparr>"

definition matching_wells :: "merged_row list \<Rightarrow> conspy_row \<Rightarrow> merged_row list" where
  "matching_wells merged row = filter (\<lambda>well. wellid well = conspy_wellid row) merged"

definition conspy_skip_message :: "conspy_row \<Rightarrow> message option" where
  "conspy_skip_message row =
     (case elev_top row of
        None \<Rightarrow> Some (Skip_null_elev_top (conspy_oid row))
      | Some real_z_top \<Rightarrow>
          (case elev_bot row of
             None \<Rightarrow> Some (Skip_null_elev_bot (conspy_oid row))
           | Some real_z_bot \<Rightarrow> None))"

definition conspy_nomatch :: "merged_row list \<Rightarrow> conspy_row \<Rightarrow> wellid option" where
  "conspy_nomatch merged row =
     (if elev_top row \<noteq> None \<and> elev_bot row \<noteq> None \<and> matching_wells merged row = []
      then Some (conspy_wellid row) else None)"

definition conspy_lines_of :: "int \<Rightarrow> int \<Rightarrow> merged_row list \<Rightarrow> conspy_row
    \<Rightarrow> (line_3d \<times> line_2d) option" where
  "conspy_lines_of buffer_dist vertical_exaggeration merged row =
     (case elev_top row of
        None \<Rightarrow> None
      | Some real_z_top \<Rightarrow>
          (case elev_bot row of
             None \<Rightarrow> None
           | Some real_z_bot \<Rightarrow>
               (if matching_wells merged row = [] then None
                else
                  let v = well_vars_of buffer_dist vertical_exaggeration
                            (last (matching_wells merged row))
                  in Some
                      (\<lparr>l3_geometry = [((real_x v, real_y v), real_z_top),
                                       ((real_x v, real_y v), real_z_bot)],
                        l3_wellid = conspy_wellid row,
                        l3_et_id = well_et_id v,
                        l3_x_coord = real_x v,
                        l3_y_coord = real_y v,
                        l3_z_top = real_z_top,
                        l3_z_bot = real_z_bot,
                        l3_conspy_oid = conspy_oid row\<rparr>,
                       \<lparr>l2_geometry = [(x_coord v, real_z_top), (x_coord v, real_z_bot)],
                        l2_wellid = conspy_wellid row,
                        l2_et_id = well_et_id v,
                        l2_x_coord = real_x v,
                        l2_y_coord = real_y v,
                        l2_z_top = real_z_top,
                        l2_z_bot = real_z_bot,
                        l2_conspy_oid = conspy_oid row,
                        l2_distance = dist_xsln v,
                        l2_pct_dist = pct_dist v,
                        l2_BUFF_DIST = buffer_dist,
                        l2_VE = vertical_exaggeration\<rparr>))))"


section \<open>Example inputs\<close>

text \<open>A cross-section line from \<open>(0, 0)\<close> to \<open>(10, 0)\<close>, a well half a unit along it and three
  units off it, the row of that well after the near analysis with a buffer distance of 5,
  and a construction record of the well.\<close>

definition line_A :: xsln_row where
  "line_A = \<lparr>shape = [(0, 0), (10, 0)], et_id = ''A''\<rparr>"

definition well_1 :: wwpt_row where
  "well_1 = \<lparr>oid = 1, wellid = NumId 1, etid = ''A'', xy = (1/2, 3),
     elevation = Some 100, meas_elev = Some 90, measuremt = Some 10,
     Data_Source = Some ''CWI''\<rparr>"

definition merged_1 :: merged_row where
  "merged_1 = \<lparr>oid = 1, wellid = NumId 1, etid = ''A'', xy = (1/2, 3),
     elevation = Some 100, meas_elev = Some 90, measuremt = Some 10,
     Data_Source = Some ''CWI'', NEAR_DIST = 3, NEAR_X = 1/2, NEAR_Y = 0, OnLine_DIST = 1/2\<rparr>"

definition record_1 :: conspy_row where
  "record_1 = \<lparr>conspy_oid = 1, conspy_wellid = NumId 1, elev_top = Some 95, elev_bot = Some 60\<rparr>"

text \<open>A second cross-section line, parallel to the first and nearer to the example well.\<close>

definition line_B :: xsln_row where
  "line_B = \<lparr>shape = [(0, 4), (10, 4)], et_id = ''B''\<rparr>"





text \<open>The empty state of a run of each script, the output point of the example well, a
  construction record with a null top elevation and a well id that no well point has, and
  the same record with both elevations.\<close>

definition run_0 :: swl_run where
  "run_0 = \<lparr>created = [], messages = [], xsln_temp = [], wwpt_merge = [], pointfile = []\<rparr>"

definition conspy_run_0 :: conspy_run where
  "conspy_run_0 = \<lparr>c_created = [], c_messages = [], c_xsln_temp = [], c_wwpt_merge = [],
     nomatch_list = [], polylinefile_3d = [], polylinefile_2d = []\<rparr>"

definition point_1 :: swl_point where
  "point_1 = \<lparr>pt_geometry = (0, 90), pt_wellid = NumId 1, pt_etid = ''A'',
     pt_x_coord = 1/2, pt_y_coord = 3, pt_x_coord_2d = 0, pt_y_coord_2d = 90,
     pt_distance = 3, pt_elevation = 100, pt_meas_elev = 90, pt_pct_dist = 120,
     pt_measuremt = Some 10, pt_BUFF_DIST = 5, pt_VE = 1, pt_Data_Source = Some ''CWI''\<rparr>"

definition record_2 :: conspy_row where
  "record_2 = \<lparr>conspy_oid = 2, conspy_wellid = NumId 7, elev_top = None, elev_bot = Some 60\<rparr>"

definition record_3 :: conspy_row where
  "record_3 = \<lparr>conspy_oid = 3, conspy_wellid = NumId 7, elev_top = Some 95, elev_bot = Some 60\<rparr>"

section \<open>Properties\<close>

subsection \<open>The geometry loops\<close>

lemma swl_well_run:
  assumes "buffer_dist \<noteq> 0" "vertical_exaggeration \<noteq> 0"
  shows "swl_well buffer_dist vertical_exaggeration well st =
     Inr (st\<lparr>messages := messages st @ List.map_filter swl_skip_message [well],
            pointfile := pointfile st
              @ List.map_filter (swl_point_of buffer_dist vertical_exaggeration) [well]\<rparr>)"
  using assms
  by (simp add: swl_well_def swl_point_of_def swl_skip_message_def List.map_filter_simps Let_def
      split: option.splits)

lemma swl_wells_run:
  assumes "buffer_dist \<noteq> 0" "vertical_exaggeration \<noteq> 0"
  shows "swl_wells buffer_dist vertical_exaggeration wells st =
     (None, st\<lparr>messages := messages st @ List.map_filter swl_skip_message wells,
            pointfile := pointfile st
              @ List.map_filter (swl_point_of buffer_dist vertical_exaggeration) wells\<rparr>)"
proof (induction wells arbitrary: st)
  case Nil
  show ?case by (simp add: List.map_filter_simps)
next
  case (Cons well rest)
  show ?case
    by (simp add: swl_well_run [OF assms] Cons.IH List.map_filter_simps split: option.splits)
qed

lemma wwpt_loop_run:
  assumes "buffer_dist \<noteq> 0" "vertical_exaggeration \<noteq> 0"
  shows "wwpt_loop buffer_dist vertical_exaggeration wells (i, vars) =
     Inr (i + length wells,
          if wells = [] then vars
          else Some (well_vars_of buffer_dist vertical_exaggeration (last wells)))"
  using assms
  by (induction wells arbitrary: i vars) (simp_all add: well_vars_of_def)

lemma conspy_record_run:
  assumes "buffer_dist \<noteq> 0" "vertical_exaggeration \<noteq> 0"
  shows "conspy_record buffer_dist vertical_exaggeration merged row st =
     Inr (st\<lparr>c_messages := c_messages st @ List.map_filter conspy_skip_message [row],
            nomatch_list := nomatch_list st @ List.map_filter (conspy_nomatch merged) [row],
            polylinefile_3d := polylinefile_3d st
              @ map fst (List.map_filter
                  (conspy_lines_of buffer_dist vertical_exaggeration merged) [row]),
            polylinefile_2d := polylinefile_2d st
              @ map snd (List.map_filter
                  (conspy_lines_of buffer_dist vertical_exaggeration merged) [row])\<rparr>)"
  by (simp add: conspy_record_def wwpt_loop_run [OF assms] conspy_skip_message_def
      conspy_nomatch_def conspy_lines_of_def matching_wells_def List.map_filter_simps Let_def
      split: option.splits)

lemma conspy_records_run:
  assumes "buffer_dist \<noteq> 0" "vertical_exaggeration \<noteq> 0"
  shows "conspy_records buffer_dist vertical_exaggeration merged rows st =
     (None,
      st\<lparr>c_messages := c_messages st @ List.map_filter conspy_skip_message rows,
         nomatch_list := nomatch_list st @ List.map_filter (conspy_nomatch merged) rows,
         polylinefile_3d := polylinefile_3d st
           @ map fst (List.map_filter
               (conspy_lines_of buffer_dist vertical_exaggeration merged) rows),
         polylinefile_2d := polylinefile_2d st
           @ map snd (List.map_filter
               (conspy_lines_of buffer_dist vertical_exaggeration merged) rows)\<rparr>)"
proof (induction rows arbitrary: st)
  case Nil
  show ?case by (simp add: List.map_filter_simps)
next
  case (Cons row rest)
  show ?case
    by (simp add: conspy_record_run [OF assms] Cons.IH List.map_filter_simps
        split: option.splits)
qed

subsection \<open>The scripts in closed form\<close>

lemma extend_lines_error:
  "fst (extend_lines buffer_dist lines acc) \<noteq> Some ZeroDivisionError
   \<and> fst (extend_lines buffer_dist lines acc) \<noteq> Some SystemExit"
proof (induction lines arbitrary: acc)
  case Nil
  show ?case by simp
next
  case (Cons line rest)
  show ?case
    using Cons.IH
    by (auto simp: extend_line_def Let_def split: sum.splits if_splits)
qed

lemma Create2Dpoints_SWL_invalid:
  assumes "buffer_dist \<le> 0 \<or> vertical_exaggeration \<le> 0 \<or> wwpt = [] \<or> xsln = []"
  shows "fst (Create2Dpoints_SWL buffer_dist vertical_exaggeration wwpt xsln) = Some SystemExit
    \<and> created (snd (Create2Dpoints_SWL buffer_dist vertical_exaggeration wwpt xsln)) = []
    \<and> pointfile (snd (Create2Dpoints_SWL buffer_dist vertical_exaggeration wwpt xsln)) = []"
  using assms by (auto simp: Create2Dpoints_SWL_def Let_def)

lemma Create2Dpoints_SWL_valid:
  assumes "0 < buffer_dist" "0 < vertical_exaggeration" "wwpt \<noteq> []" "xsln \<noteq> []"
  shows "Create2Dpoints_SWL buffer_dist vertical_exaggeration wwpt xsln =
    (case extend_lines buffer_dist xsln [] of
       (Some e, lines) \<Rightarrow>
         (Some e,
          \<lparr>created = [''swl_2d_xsecview'', ''wwpt_by_xs'', ''wwpt_temp'', ''xsln_temp''],
           messages = [], xsln_temp = lines, wwpt_merge = [], pointfile = []\<rparr>)
     | (None, lines) \<Rightarrow>
         (None,
          \<lparr>created = [''swl_2d_xsecview'', ''wwpt_by_xs'', ''wwpt_temp'', ''xsln_temp'']
             @ map (\<lambda>f. ''wwpt_'' @ fst f) (near_analysis buffer_dist wwpt lines [])
             @ [''wwpt_merge''],
           messages = List.map_filter swl_skip_message
             (merge_files (near_analysis buffer_dist wwpt lines [])),
           xsln_temp = lines,
           wwpt_merge = merge_files (near_analysis buffer_dist wwpt lines []),
           pointfile = List.map_filter (swl_point_of buffer_dist vertical_exaggeration)
             (merge_files (near_analysis buffer_dist wwpt lines []))\<rparr>))"
proof -
  have nz: "buffer_dist \<noteq> 0" "vertical_exaggeration \<noteq> 0" using assms by simp_all
  show ?thesis
    using assms
    by (simp add: Create2Dpoints_SWL_def Let_def swl_wells_run [OF nz]
        split: prod.splits option.splits)
qed

lemma CreateConspys_invalid:
  assumes "buffer_dist \<le> 0 \<or> vertical_exaggeration \<le> 0 \<or> conspy = [] \<or> wwpt = [] \<or> xsln = []"
  shows "fst (CreateConspys buffer_dist vertical_exaggeration conspy wwpt xsln) = Some SystemExit
    \<and> c_created (snd (CreateConspys buffer_dist vertical_exaggeration conspy wwpt xsln)) = []
    \<and> polylinefile_3d (snd (CreateConspys buffer_dist vertical_exaggeration conspy wwpt xsln)) = []
    \<and> polylinefile_2d (snd (CreateConspys buffer_dist vertical_exaggeration conspy wwpt xsln)) = []"
  using assms by (auto simp: CreateConspys_def Let_def)

lemma polyline_geometry_run:
  assumes "buffer_dist \<noteq> 0" "vertical_exaggeration \<noteq> 0"
  shows "polyline_geometry buffer_dist vertical_exaggeration merged conspy_table st =
     (None,
      st\<lparr>c_messages := c_messages st @ List.map_filter conspy_skip_message conspy_table
           @ (if List.map_filter (conspy_nomatch merged) conspy_table = [] then []
              else [No_match_report
                      (length (List.map_filter (conspy_nomatch merged) conspy_table))]),
         nomatch_list := List.map_filter (conspy_nomatch merged) conspy_table,
         polylinefile_3d := polylinefile_3d st
           @ map fst (List.map_filter
               (conspy_lines_of buffer_dist vertical_exaggeration merged) conspy_table),
         polylinefile_2d := polylinefile_2d st
           @ map snd (List.map_filter
               (conspy_lines_of buffer_dist vertical_exaggeration merged) conspy_table)\<rparr>)"
  by (simp add: polyline_geometry_def conspy_records_run [OF assms] report_nomatch_def)

lemma CreateConspys_valid:
  assumes "0 < buffer_dist" "0 < vertical_exaggeration" "conspy \<noteq> []" "wwpt \<noteq> []" "xsln \<noteq> []"
  shows "CreateConspys buffer_dist vertical_exaggeration conspy wwpt xsln =
    (case extend_lines buffer_dist xsln [] of
       (Some e, lines) \<Rightarrow>
         (Some e,
          \<lparr>c_created = [''conspys_3d'', ''conspys_2d_line'', ''wwpt_by_xs'',
                        ''wwpt_temp'', ''xsln_temp''],
           c_messages = [], c_xsln_temp = lines, c_wwpt_merge = [], nomatch_list = [],
           polylinefile_3d = [], polylinefile_2d = []\<rparr>)
     | (None, lines) \<Rightarrow>
         (let merged = merge_files (near_analysis buffer_dist wwpt lines []) in
         (None,
          \<lparr>c_created = [''conspys_3d'', ''conspys_2d_line'', ''wwpt_by_xs'',
                        ''wwpt_temp'', ''xsln_temp'']
             @ map (\<lambda>f. ''wwpt_'' @ fst f) (near_analysis buffer_dist wwpt lines [])
             @ [''wwpt_merge''],
           c_messages = List.map_filter conspy_skip_message conspy
             @ (if List.map_filter (conspy_nomatch merged) conspy = [] then []
                else [No_match_report (length (List.map_filter (conspy_nomatch merged) conspy))]),
           c_xsln_temp = lines,
           c_wwpt_merge = merged,
           nomatch_list = List.map_filter (conspy_nomatch merged) conspy,
           polylinefile_3d = map fst (List.map_filter
               (conspy_lines_of buffer_dist vertical_exaggeration merged) conspy),
           polylinefile_2d = map snd (List.map_filter
               (conspy_lines_of buffer_dist vertical_exaggeration merged) conspy)\<rparr>)))"
proof -
  have nz: "buffer_dist \<noteq> 0" "vertical_exaggeration \<noteq> 0" using assms by simp_all
  show ?thesis
    using assms
    by (simp add: CreateConspys_def Let_def polyline_geometry_run [OF nz]
        split: prod.splits option.splits)
qed

lemma swl_skip_message_not_error:
  "swl_skip_message well \<noteq> Some Error_buffer_dist
   \<and> swl_skip_message well \<noteq> Some Error_vertical_exaggeration"
  by (simp add: swl_skip_message_def split: option.splits)

lemma conspy_skip_message_not_error:
  "conspy_skip_message row \<noteq> Some Error_buffer_dist
   \<and> conspy_skip_message row \<noteq> Some Error_vertical_exaggeration"
  by (simp add: conspy_skip_message_def split: option.splits)

lemma map_filter_avoids:
  "(\<And>x. f x \<noteq> Some m) \<Longrightarrow> m \<notin> set (List.map_filter f xs)"
  by (auto simp: List.map_filter_def)

lemma Create2Dpoints_SWL_error:
  "fst (Create2Dpoints_SWL buffer_dist vertical_exaggeration wwpt xsln) \<noteq> Some ZeroDivisionError"
proof (cases "buffer_dist \<le> 0 \<or> vertical_exaggeration \<le> 0 \<or> wwpt = [] \<or> xsln = []")
  case True
  then show ?thesis using Create2Dpoints_SWL_invalid [OF True] by simp
next
  case False
  then have v: "0 < buffer_dist" "0 < vertical_exaggeration" "wwpt \<noteq> []" "xsln \<noteq> []"
    by simp_all
  show ?thesis
    using extend_lines_error [of buffer_dist xsln "[]"]
    by (auto simp: Create2Dpoints_SWL_valid [OF v] split: prod.splits option.splits)
qed

lemma CreateConspys_error:
  "fst (CreateConspys buffer_dist vertical_exaggeration conspy wwpt xsln) \<noteq> Some ZeroDivisionError"
proof (cases "buffer_dist \<le> 0 \<or> vertical_exaggeration \<le> 0 \<or> conspy = [] \<or> wwpt = [] \<or> xsln = []")
  case True
  then show ?thesis using CreateConspys_invalid [OF True] by simp
next
  case False
  then have v: "0 < buffer_dist" "0 < vertical_exaggeration" "conspy \<noteq> []" "wwpt \<noteq> []" "xsln \<noteq> []"
    by simp_all
  show ?thesis
    using extend_lines_error [of buffer_dist xsln "[]"]
    by (auto simp: CreateConspys_valid [OF v] Let_def split: prod.splits option.splits)
qed

lemma Create2Dpoints_SWL_messages:
  assumes "0 < buffer_dist" "0 < vertical_exaggeration"
  shows "Error_buffer_dist \<notin> set (messages (snd (Create2Dpoints_SWL buffer_dist vertical_exaggeration wwpt xsln)))
    \<and> Error_vertical_exaggeration \<notin> set (messages (snd (Create2Dpoints_SWL buffer_dist vertical_exaggeration wwpt xsln)))"
proof (cases "wwpt = [] \<or> xsln = []")
  case True
  then show ?thesis using assms by (auto simp: Create2Dpoints_SWL_def Let_def)
next
  case False
  then have v: "wwpt \<noteq> []" "xsln \<noteq> []" by simp_all
  show ?thesis
    using map_filter_avoids [of swl_skip_message] swl_skip_message_not_error
    by (simp add: Create2Dpoints_SWL_valid [OF assms v] split: prod.splits option.splits)
qed

lemma CreateConspys_messages:
  assumes "0 < buffer_dist" "0 < vertical_exaggeration"
  shows "Error_buffer_dist \<notin> set (c_messages (snd (CreateConspys buffer_dist vertical_exaggeration conspy wwpt xsln)))
    \<and> Error_vertical_exaggeration \<notin> set (c_messages (snd (CreateConspys buffer_dist vertical_exaggeration conspy wwpt xsln)))"
proof (cases "conspy = [] \<or> wwpt = [] \<or> xsln = []")
  case True
  then show ?thesis using assms by (auto simp: CreateConspys_def Let_def)
next
  case False
  then have v: "conspy \<noteq> []" "wwpt \<noteq> []" "xsln \<noteq> []" by simp_all
  show ?thesis
    using map_filter_avoids [of conspy_skip_message] conspy_skip_message_not_error
    by (simp add: CreateConspys_valid [OF assms v] Let_def split: prod.splits option.splits)
qed

subsection \<open>The scripts on the example inputs\<close>

lemma dist_pt_same_y: "dist_pt (x1, y) (x2, y) = \<bar>x2 - x1\<bar>"
  by (simp add: dist_pt_def)

lemma dist_pt_same_x: "dist_pt (x, y1) (x, y2) = \<bar>y2 - y1\<bar>"
  by (simp add: dist_pt_def)

lemmas geometry_eval = extend_line_def angleAndDistanceTo_def pointFromAngleAndDistance_def
  nearest_on_line_def measureOnLine_def candidate_def closest_on_segment_def
  dist_pt_same_y dist_pt_same_x Let_def

lemma extend_line_A: "extend_line 5 (shape line_A) = Inr [(-5, 0), (15, 0)]"
  by (simp add: line_A_def geometry_eval)

lemma extend_lines_A:
  "extend_lines 5 [line_A] [] = (None, [\<lparr>shape = [(-5, 0), (15, 0)], et_id = ''A''\<rparr>])"
  by (simp add: extend_line_A) (simp add: line_A_def)

lemma locate_well_1: "locate_well 5 [(-5, 0), (15, 0)] well_1 = merged_1"
  by (simp add: locate_well_def geometry_eval well_1_def merged_1_def
      wwpt_row.defs merged_row.defs)

lemma near_analysis_A:
  "near_analysis 5 [well_1] [\<lparr>shape = [(-5, 0), (15, 0)], et_id = ''A''\<rparr>] [] = [(''A'', [merged_1])]"
proof -
  have "etid well_1 = ''A''" by (simp add: well_1_def)
  then show ?thesis by (simp add: locate_well_1)
qed

lemma py_int_half: "py_int (1/2) = 0"
  by (simp add: py_int_def)

lemma swl_point_of_1:
  "swl_point_of 5 1 merged_1 =
     Some \<lparr>pt_geometry = (0, 90), pt_wellid = NumId 1, pt_etid = ''A'',
            pt_x_coord = 1/2, pt_y_coord = 3, pt_x_coord_2d = 0, pt_y_coord_2d = 90,
            pt_distance = 3, pt_elevation = 100, pt_meas_elev = 90, pt_pct_dist = 120,
            pt_measuremt = Some 10, pt_BUFF_DIST = 5, pt_VE = 1,
            pt_Data_Source = Some ''CWI''\<rparr>"
  by (simp add: swl_point_of_def merged_1_def py_int_half)

lemma Create2Dpoints_SWL_example:
  "Create2Dpoints_SWL 5 1 [well_1] [line_A] =
     (None,
      \<lparr>created = [''swl_2d_xsecview'', ''wwpt_by_xs'', ''wwpt_temp'', ''xsln_temp'',
                   ''wwpt_A'', ''wwpt_merge''],
       messages = [],
       xsln_temp = [\<lparr>shape = [(-5, 0), (15, 0)], et_id = ''A''\<rparr>],
       wwpt_merge = [merged_1],
       pointfile =
         [\<lparr>pt_geometry = (0, 90), pt_wellid = NumId 1, pt_etid = ''A'',
            pt_x_coord = 1/2, pt_y_coord = 3, pt_x_coord_2d = 0, pt_y_coord_2d = 90,
            pt_distance = 3, pt_elevation = 100, pt_meas_elev = 90, pt_pct_dist = 120,
            pt_measuremt = Some 10, pt_BUFF_DIST = 5, pt_VE = 1,
            pt_Data_Source = Some ''CWI''\<rparr>]\<rparr>)"
proof -
  have sk: "swl_skip_message merged_1 = None"
    by (simp add: swl_skip_message_def merged_1_def)
  show ?thesis
    by (simp add: Create2Dpoints_SWL_valid extend_lines_A near_analysis_A merge_files_def
        List.map_filter_simps swl_point_of_1 sk del: extend_lines.simps near_analysis.simps)
qed

lemma CreateConspys_example:
  "CreateConspys 5 1 [record_1] [well_1] [line_A] =
     (None,
      \<lparr>c_created = [''conspys_3d'', ''conspys_2d_line'', ''wwpt_by_xs'', ''wwpt_temp'',
                     ''xsln_temp'', ''wwpt_A'', ''wwpt_merge''],
       c_messages = [],
       c_xsln_temp = [\<lparr>shape = [(-5, 0), (15, 0)], et_id = ''A''\<rparr>],
       c_wwpt_merge = [merged_1],
       nomatch_list = [],
       polylinefile_3d =
         [\<lparr>l3_geometry = [((1/2, 3), 95), ((1/2, 3), 60)], l3_wellid = NumId 1,
            l3_et_id = ''A'', l3_x_coord = 1/2, l3_y_coord = 3, l3_z_top = 95, l3_z_bot = 60,
            l3_conspy_oid = 1\<rparr>],
       polylinefile_2d =
         [\<lparr>l2_geometry = [(1/2 / 0.3048, 95), (1/2 / 0.3048, 60)], l2_wellid = NumId 1,
            l2_et_id = ''A'', l2_x_coord = 1/2, l2_y_coord = 3, l2_z_top = 95, l2_z_bot = 60,
            l2_conspy_oid = 1, l2_distance = 3, l2_pct_dist = 120, l2_BUFF_DIST = 5,
            l2_VE = 1\<rparr>]\<rparr>)"
proof -
  have sk: "conspy_skip_message record_1 = None"
    by (simp add: conspy_skip_message_def record_1_def)
  have mw: "matching_wells [merged_1] record_1 = [merged_1]"
    by (simp add: matching_wells_def merged_1_def record_1_def)
  have nm: "conspy_nomatch [merged_1] record_1 = None"
    by (simp add: conspy_nomatch_def mw)
  have ln: "conspy_lines_of 5 1 [merged_1] record_1 =
     Some (\<lparr>l3_geometry = [((1/2, 3), 95), ((1/2, 3), 60)], l3_wellid = NumId 1,
            l3_et_id = ''A'', l3_x_coord = 1/2, l3_y_coord = 3, l3_z_top = 95, l3_z_bot = 60,
            l3_conspy_oid = 1\<rparr>,
           \<lparr>l2_geometry = [(1/2 / 0.3048, 95), (1/2 / 0.3048, 60)], l2_wellid = NumId 1,
            l2_et_id = ''A'', l2_x_coord = 1/2, l2_y_coord = 3, l2_z_top = 95, l2_z_bot = 60,
            l2_conspy_oid = 1, l2_distance = 3, l2_pct_dist = 120, l2_BUFF_DIST = 5,
            l2_VE = 1\<rparr>)"
    by (simp add: conspy_lines_of_def matching_wells_def well_vars_of_def Let_def
        merged_1_def record_1_def)
  show ?thesis
    by (simp add: CreateConspys_valid extend_lines_A near_analysis_A merge_files_def
        List.map_filter_simps sk nm ln Let_def del: extend_lines.simps near_analysis.simps)
qed

subsection \<open>Parameter and row-count checks\<close>

text \<open>
  Claim C6. Both scripts end with SystemExit, with nothing created in the output workspace,
  whenever \<open>buffer_dist \<le> 0\<close> or \<open>vertical_exaggeration \<le> 0\<close>. When both are positive neither
  of the two checks fires (neither of their error messages is printed), so whatever is
  created later is created under \<open>0 < buffer_dist\<close> and \<open>0 < vertical_exaggeration\<close>, and no
  division of the later computation fails on a zero.
\<close>

theorem parameter_checks:
  "(buffer_dist \<le> 0 \<or> vertical_exaggeration \<le> 0 \<longrightarrow>
      fst (Create2Dpoints_SWL buffer_dist vertical_exaggeration wwpt xsln) = Some SystemExit
      \<and> created (snd (Create2Dpoints_SWL buffer_dist vertical_exaggeration wwpt xsln)) = []
      \<and> fst (CreateConspys buffer_dist vertical_exaggeration conspy wwpt xsln) = Some SystemExit
      \<and> c_created (snd (CreateConspys buffer_dist vertical_exaggeration conspy wwpt xsln)) = [])
   \<and> (0 < buffer_dist \<and> 0 < vertical_exaggeration \<longrightarrow>
      Error_buffer_dist \<notin> set (messages (snd (Create2Dpoints_SWL buffer_dist vertical_exaggeration wwpt xsln)))
      \<and> Error_vertical_exaggeration \<notin> set (messages (snd (Create2Dpoints_SWL buffer_dist vertical_exaggeration wwpt xsln)))
      \<and> Error_buffer_dist \<notin> set (c_messages (snd (CreateConspys buffer_dist vertical_exaggeration conspy wwpt xsln)))
      \<and> Error_vertical_exaggeration \<notin> set (c_messages (snd (CreateConspys buffer_dist vertical_exaggeration conspy wwpt xsln))))
   \<and> (created (snd (Create2Dpoints_SWL buffer_dist vertical_exaggeration wwpt xsln)) \<noteq> [] \<longrightarrow>
      0 < buffer_dist \<and> 0 < vertical_exaggeration)
   \<and> (c_created (snd (CreateConspys buffer_dist vertical_exaggeration conspy wwpt xsln)) \<noteq> [] \<longrightarrow>
      0 < buffer_dist \<and> 0 < vertical_exaggeration)
   \<and> fst (Create2Dpoints_SWL buffer_dist vertical_exaggeration wwpt xsln) \<noteq> Some ZeroDivisionError
   \<and> fst (CreateConspys buffer_dist vertical_exaggeration conspy wwpt xsln) \<noteq> Some ZeroDivisionError"
proof -
  have a: "buffer_dist \<le> 0 \<or> vertical_exaggeration \<le> 0 \<Longrightarrow>
      fst (Create2Dpoints_SWL buffer_dist vertical_exaggeration wwpt xsln) = Some SystemExit
      \<and> created (snd (Create2Dpoints_SWL buffer_dist vertical_exaggeration wwpt xsln)) = []"
    using Create2Dpoints_SWL_invalid [of buffer_dist vertical_exaggeration wwpt xsln] by blast
  have b: "buffer_dist \<le> 0 \<or> vertical_exaggeration \<le> 0 \<Longrightarrow>
      fst (CreateConspys buffer_dist vertical_exaggeration conspy wwpt xsln) = Some SystemExit
      \<and> c_created (snd (CreateConspys buffer_dist vertical_exaggeration conspy wwpt xsln)) = []"
    using CreateConspys_invalid [of buffer_dist vertical_exaggeration conspy wwpt xsln] by blast
  have c: "created (snd (Create2Dpoints_SWL buffer_dist vertical_exaggeration wwpt xsln)) \<noteq> [] \<Longrightarrow>
      0 < buffer_dist \<and> 0 < vertical_exaggeration"
    using a by force
  have d: "c_created (snd (CreateConspys buffer_dist vertical_exaggeration conspy wwpt xsln)) \<noteq> [] \<Longrightarrow>
      0 < buffer_dist \<and> 0 < vertical_exaggeration"
    using b by force
  show ?thesis
    using a b c d Create2Dpoints_SWL_messages [of buffer_dist vertical_exaggeration wwpt xsln]
      CreateConspys_messages [of buffer_dist vertical_exaggeration conspy wwpt xsln]
      Create2Dpoints_SWL_error [of buffer_dist vertical_exaggeration wwpt xsln]
      CreateConspys_error [of buffer_dist vertical_exaggeration conspy wwpt xsln]
    by blast
qed

theorem parameter_checks_witness:
  "fst (Create2Dpoints_SWL 0 1 [well_1] [line_A]) = Some SystemExit
   \<and> created (snd (Create2Dpoints_SWL 0 1 [well_1] [line_A])) = []
   \<and> fst (CreateConspys 0 1 [record_1] [well_1] [line_A]) = Some SystemExit
   \<and> c_created (snd (CreateConspys 0 1 [record_1] [well_1] [line_A])) = []
   \<and> created (snd (Create2Dpoints_SWL 5 1 [well_1] [line_A])) \<noteq> []
   \<and> c_created (snd (CreateConspys 5 1 [record_1] [well_1] [line_A])) \<noteq> []
   \<and> Error_buffer_dist \<notin> set (messages (snd (Create2Dpoints_SWL 5 1 [well_1] [line_A])))
   \<and> Error_vertical_exaggeration
        \<notin> set (c_messages (snd (CreateConspys 5 1 [record_1] [well_1] [line_A])))"
proof -
  have c: "created (snd (Create2Dpoints_SWL 5 1 [well_1] [line_A])) \<noteq> []"
    by (simp add: Create2Dpoints_SWL_example)
  have d: "c_created (snd (CreateConspys 5 1 [record_1] [well_1] [line_A])) \<noteq> []"
    by (simp add: CreateConspys_example)
  show ?thesis
    using c d
      parameter_checks [where buffer_dist = 0 and vertical_exaggeration = 1
        and wwpt = "[well_1]" and xsln = "[line_A]" and conspy = "[record_1]"]
      parameter_checks [where buffer_dist = 5 and vertical_exaggeration = 1
        and wwpt = "[well_1]" and xsln = "[line_A]" and conspy = "[record_1]"]
    by simp
qed

text \<open>
  Claim C8. When the well point file or the line file has no row (or, in the construction
  script, the construction table has none), the script ends with SystemExit during the
  checks: nothing has been created in the output workspace and no output row is written.
\<close>

theorem row_count_checks:
  "(wwpt = [] \<or> xsln = [] \<longrightarrow>
      fst (Create2Dpoints_SWL buffer_dist vertical_exaggeration wwpt xsln) = Some SystemExit
      \<and> created (snd (Create2Dpoints_SWL buffer_dist vertical_exaggeration wwpt xsln)) = []
      \<and> pointfile (snd (Create2Dpoints_SWL buffer_dist vertical_exaggeration wwpt xsln)) = [])
   \<and> (conspy = [] \<or> wwpt = [] \<or> xsln = [] \<longrightarrow>
      fst (CreateConspys buffer_dist vertical_exaggeration conspy wwpt xsln) = Some SystemExit
      \<and> c_created (snd (CreateConspys buffer_dist vertical_exaggeration conspy wwpt xsln)) = []
      \<and> polylinefile_3d (snd (CreateConspys buffer_dist vertical_exaggeration conspy wwpt xsln)) = []
      \<and> polylinefile_2d (snd (CreateConspys buffer_dist vertical_exaggeration conspy wwpt xsln)) = [])"
  using Create2Dpoints_SWL_invalid [of buffer_dist vertical_exaggeration wwpt xsln]
    CreateConspys_invalid [of buffer_dist vertical_exaggeration conspy wwpt xsln]
  by blast

theorem row_count_checks_witness:
  "fst (Create2Dpoints_SWL 5 1 [] [line_A]) = Some SystemExit
   \<and> created (snd (Create2Dpoints_SWL 5 1 [] [line_A])) = []
   \<and> pointfile (snd (Create2Dpoints_SWL 5 1 [] [line_A])) = []
   \<and> fst (CreateConspys 5 1 [] [] [line_A]) = Some SystemExit
   \<and> c_created (snd (CreateConspys 5 1 [] [] [line_A])) = []
   \<and> polylinefile_2d (snd (CreateConspys 5 1 [] [] [line_A])) = []"
  using row_count_checks [where buffer_dist = 5 and vertical_exaggeration = 1
      and wwpt = "[]" and xsln = "[line_A]" and conspy = "[]"]
  by simp

subsection \<open>Null elevations\<close>

text \<open>
  Claim C5. A record with a null elevation or measurement value is skipped: the pass of
  the loop for it only prints a message, changes no output file, and the loop goes on with
  the remaining records. In the static water level script \<^verbatim>\<open>pct_dist\<close> is computed before the
  null checks, hence the condition on \<open>buffer_dist\<close>, which the parameter checks establish.
\<close>

theorem null_records_skipped:
  "(buffer_dist \<noteq> 0 \<and> (elevation well = None \<or> meas_elev well = None) \<longrightarrow>
      (\<exists>m. swl_well buffer_dist vertical_exaggeration well st
               = Inr (st\<lparr>messages := messages st @ [m]\<rparr>)
           \<and> swl_wells buffer_dist vertical_exaggeration (well # rest) st
               = swl_wells buffer_dist vertical_exaggeration rest
                   (st\<lparr>messages := messages st @ [m]\<rparr>)))
   \<and> (elev_top row = None \<or> elev_bot row = None \<longrightarrow>
      (\<exists>m. conspy_record buffer_dist vertical_exaggeration merged row cst
               = Inr (cst\<lparr>c_messages := c_messages cst @ [m]\<rparr>)
           \<and> conspy_records buffer_dist vertical_exaggeration merged (row # others) cst
               = conspy_records buffer_dist vertical_exaggeration merged others
                   (cst\<lparr>c_messages := c_messages cst @ [m]\<rparr>)))"
proof -
  have swl: "\<exists>m. swl_well buffer_dist vertical_exaggeration well st
               = Inr (st\<lparr>messages := messages st @ [m]\<rparr>)"
    if "buffer_dist \<noteq> 0" "elevation well = None \<or> meas_elev well = None"
    using that by (auto simp: swl_well_def Let_def split: option.splits)
  have con: "\<exists>m. conspy_record buffer_dist vertical_exaggeration merged row cst
               = Inr (cst\<lparr>c_messages := c_messages cst @ [m]\<rparr>)"
    if "elev_top row = None \<or> elev_bot row = None"
    using that by (auto simp: conspy_record_def split: option.splits)
  show ?thesis
    using swl con by fastforce
qed

theorem null_records_skipped_witness:
  "(\<exists>m. swl_wells 5 1 [merged_1\<lparr>elevation := None\<rparr>, merged_1] run_0
          = swl_wells 5 1 [merged_1] (run_0\<lparr>messages := messages run_0 @ [m]\<rparr>))
   \<and> (\<exists>m. conspy_records 5 1 [merged_1] [record_2, record_1] conspy_run_0
          = conspy_records 5 1 [merged_1] [record_1]
              (conspy_run_0\<lparr>c_messages := c_messages conspy_run_0 @ [m]\<rparr>))"
proof -
  have a: "(5::int) \<noteq> 0 \<and> (elevation (merged_1\<lparr>elevation := None\<rparr>) = None
      \<or> meas_elev (merged_1\<lparr>elevation := None\<rparr>) = None)"
    by simp
  have b: "elev_top record_2 = None \<or> elev_bot record_2 = None"
    by (simp add: record_2_def)
  show ?thesis
    using a b
      null_records_skipped [where buffer_dist = 5 and vertical_exaggeration = 1
        and well = "merged_1\<lparr>elevation := None\<rparr>" and rest = "[merged_1]" and st = run_0
        and row = record_2 and others = "[record_1]" and merged = "[merged_1]"
        and cst = conspy_run_0]
    by blast
qed

subsection \<open>The 2D x-coordinate in the two scripts\<close>

lemma py_int_eq_iff: "real_of_int (py_int x) = x \<longleftrightarrow> x \<in> \<int>"
proof
  assume "real_of_int (py_int x) = x"
  then show "x \<in> \<int>" by (metis Ints_of_int)
next
  assume "x \<in> \<int>"
  then obtain k where "x = of_int k" by (auto elim: Ints_cases)
  then show "real_of_int (py_int x) = x" by (simp add: py_int_def)
qed

lemma py_int_near: "\<bar>real_of_int (py_int x) - x\<bar> < 1"
  unfolding py_int_def by (simp; linarith)

text \<open>
  The two loop bodies side by side, for the same well row of \<^verbatim>\<open>wwpt_merge\<close>: the static water
  level script computes \<open>int(s) / 0.3048 / vertical_exaggeration\<close> and the construction script
  \<open>s / 0.3048 / vertical_exaggeration\<close>, where \<open>s\<close> is \<^verbatim>\<open>OnLine_DIST\<close>. The two results are equal
  exactly when \<open>s\<close> is a whole number and differ by less than
  \<open>1 / 0.3048 / vertical_exaggeration\<close> otherwise.
\<close>

lemma x_coordinates_compared:
  assumes "swl_well buffer_dist vertical_exaggeration well st = Inr st'"
    and "pointfile st' = pointfile st @ [p]"
    and "wwpt_loop buffer_dist vertical_exaggeration [well] acc = Inr (i, Some v)"
  shows "pt_x_coord_2d p
           = real_of_int (py_int (OnLine_DIST well)) / 0.3048 / real_of_int vertical_exaggeration
    \<and> x_coord v = OnLine_DIST well / 0.3048 / real_of_int vertical_exaggeration
    \<and> (pt_x_coord_2d p = x_coord v \<longleftrightarrow> OnLine_DIST well \<in> \<int>)
    \<and> \<bar>pt_x_coord_2d p - x_coord v\<bar> < 1 / 0.3048 / \<bar>real_of_int vertical_exaggeration\<bar>"
proof -
  have nz: "buffer_dist \<noteq> 0" "vertical_exaggeration \<noteq> 0"
    using assms(3) by (cases acc; simp split: if_splits)+
  have v: "v = well_vars_of buffer_dist vertical_exaggeration well"
    using assms(3) by (cases acc) (simp add: wwpt_loop_run [OF nz] del: wwpt_loop.simps)
  have "List.map_filter (swl_point_of buffer_dist vertical_exaggeration) [well] = [p]"
    using assms(1,2) by (simp add: swl_well_run [OF nz]) (use assms(2) in auto)
  then have p: "swl_point_of buffer_dist vertical_exaggeration well = Some p"
    by (simp add: List.map_filter_simps split: option.splits)
  have px: "pt_x_coord_2d p
           = real_of_int (py_int (OnLine_DIST well)) / 0.3048 / real_of_int vertical_exaggeration"
    using p by (auto simp: swl_point_of_def split: option.splits)
  have vx: "x_coord v = OnLine_DIST well / 0.3048 / real_of_int vertical_exaggeration"
    by (simp add: v well_vars_of_def)
  have ve: "real_of_int vertical_exaggeration \<noteq> 0" using nz by simp
  have eq: "pt_x_coord_2d p = x_coord v \<longleftrightarrow> OnLine_DIST well \<in> \<int>"
    using ve by (simp add: px vx py_int_eq_iff)
  define k where "k = 1 / 0.3048 / \<bar>real_of_int vertical_exaggeration\<bar>"
  define d where "d = real_of_int (py_int (OnLine_DIST well)) - OnLine_DIST well"
  have kpos: "0 < k" using ve by (simp add: k_def)
  have "pt_x_coord_2d p - x_coord v = d * (1 / 0.3048 / real_of_int vertical_exaggeration)"
    by (simp add: px vx d_def diff_divide_distrib)
  then have "\<bar>pt_x_coord_2d p - x_coord v\<bar> = \<bar>d\<bar> * k"
    by (simp add: k_def abs_mult)
  also have "\<dots> < 1 * k"
    using py_int_near [of "OnLine_DIST well"] kpos
    unfolding d_def by (intro mult_strict_right_mono) simp_all
  finally have "\<bar>pt_x_coord_2d p - x_coord v\<bar>
      < 1 / 0.3048 / \<bar>real_of_int vertical_exaggeration\<bar>"
    by (simp add: k_def)
  then show ?thesis using px vx eq by simp
qed

lemma x_coordinates_compared_example:
  "swl_well 5 1 merged_1 run_0 = Inr (run_0\<lparr>pointfile := [point_1]\<rparr>)
   \<and> wwpt_loop 5 1 [merged_1] (0, None) = Inr (1, Some (well_vars_of 5 1 merged_1))
   \<and> pt_x_coord_2d point_1 = 0
   \<and> x_coord (well_vars_of 5 1 merged_1) = 1 / 2 / 0.3048
   \<and> OnLine_DIST merged_1 \<notin> \<int>"
proof -
  have a1: "swl_well 5 1 merged_1 run_0 = Inr (run_0\<lparr>pointfile := [point_1]\<rparr>)"
    by (simp add: swl_well_run List.map_filter_simps swl_point_of_1 run_0_def point_1_def)
       (simp add: swl_skip_message_def merged_1_def)
  have a2: "pointfile (run_0\<lparr>pointfile := [point_1]\<rparr>) = pointfile run_0 @ [point_1]"
    by (simp add: run_0_def)
  have a3: "wwpt_loop 5 1 [merged_1] (0, None) = Inr (1, Some (well_vars_of 5 1 merged_1))"
    by (simp add: well_vars_of_def)
  have x: "pt_x_coord_2d point_1 = 0" by (simp add: point_1_def)
  have y: "x_coord (well_vars_of 5 1 merged_1) = 1 / 2 / 0.3048"
    by (simp add: well_vars_of_def merged_1_def)
  show ?thesis
    using x_coordinates_compared [OF a1 a2 a3] a1 a3 x y by simp
qed

text \<open>
  Claim C7. The two scripts do not compute the same 2D x-coordinate for the same well
  point, line, \<open>buffer_dist\<close> and \<open>vertical_exaggeration\<close>. On the example inputs both scripts
  find the along-line distance \<open>1/2\<close> for the well; the static water level script, which
  applies \<^verbatim>\<open>int()\<close> to the distance in metres, writes the x-coordinate 0, and the construction
  script, which has the same statement without \<^verbatim>\<open>int()\<close>, writes \<open>1/2 / 0.3048\<close>.
\<close>

theorem x_coordinates_differ:
  "OnLine_DIST (hd (wwpt_merge (snd (Create2Dpoints_SWL 5 1 [well_1] [line_A])))) = 1/2
   \<and> OnLine_DIST (hd (c_wwpt_merge (snd (CreateConspys 5 1 [record_1] [well_1] [line_A])))) = 1/2
   \<and> pt_x_coord_2d (hd (pointfile (snd (Create2Dpoints_SWL 5 1 [well_1] [line_A])))) = 0
   \<and> fst (hd (l2_geometry (hd (polylinefile_2d
          (snd (CreateConspys 5 1 [record_1] [well_1] [line_A])))))) = 1/2 / 0.3048
   \<and> pt_x_coord_2d (hd (pointfile (snd (Create2Dpoints_SWL 5 1 [well_1] [line_A]))))
       \<noteq> fst (hd (l2_geometry (hd (polylinefile_2d
            (snd (CreateConspys 5 1 [record_1] [well_1] [line_A]))))))"
  by (simp add: Create2Dpoints_SWL_example CreateConspys_example merged_1_def)

subsection \<open>Construction records without a well point\<close>

lemma map_filter_conspy_nomatch:
  "List.map_filter (conspy_nomatch merged) conspy_table
   = map conspy_wellid
       (filter (\<lambda>row. elev_top row \<noteq> None \<and> elev_bot row \<noteq> None
                  \<and> filter (\<lambda>well. wellid well = conspy_wellid row) merged = [])
          conspy_table)"
  by (induction conspy_table)
     (simp_all add: List.map_filter_simps conspy_nomatch_def matching_wells_def)

lemma conspy_skip_message_not_report: "conspy_skip_message row \<noteq> Some (No_match_report k)"
  by (simp add: conspy_skip_message_def split: option.splits)

text \<open>
  Claim C10, amended. A construction record with both elevations present whose well id
  matches no row of \<^verbatim>\<open>wwpt_merge\<close> writes no row to either polyline file: its pass of the loop
  only appends its well id to the no-match list, and the loop goes on. After the loop the
  no-match list holds the well ids of exactly these records, in table order, and when it
  is not empty its length is printed once, after the skip messages.
\<close>

theorem unmatched_records:
  "(elev_top row \<noteq> None \<and> elev_bot row \<noteq> None
      \<and> filter (\<lambda>well. wellid well = conspy_wellid row) merged = [] \<longrightarrow>
      conspy_record buffer_dist vertical_exaggeration merged row st
        = Inr (st\<lparr>nomatch_list := nomatch_list st @ [conspy_wellid row]\<rparr>)
      \<and> conspy_records buffer_dist vertical_exaggeration merged (row # rest) st
        = conspy_records buffer_dist vertical_exaggeration merged rest
            (st\<lparr>nomatch_list := nomatch_list st @ [conspy_wellid row]\<rparr>))
   \<and> (buffer_dist \<noteq> 0 \<and> vertical_exaggeration \<noteq> 0 \<longrightarrow>
      (\<exists>skips.
         fst (polyline_geometry buffer_dist vertical_exaggeration merged conspy_table st) = None
         \<and> nomatch_list
              (snd (polyline_geometry buffer_dist vertical_exaggeration merged conspy_table st))
            = map conspy_wellid
                (filter (\<lambda>row. elev_top row \<noteq> None \<and> elev_bot row \<noteq> None
                           \<and> filter (\<lambda>well. wellid well = conspy_wellid row) merged = [])
                   conspy_table)
         \<and> c_messages
              (snd (polyline_geometry buffer_dist vertical_exaggeration merged conspy_table st))
            = c_messages st @ skips
              @ (if filter (\<lambda>row. elev_top row \<noteq> None \<and> elev_bot row \<noteq> None
                           \<and> filter (\<lambda>well. wellid well = conspy_wellid row) merged = [])
                     conspy_table = []
                 then []
                 else [No_match_report
                        (length (filter (\<lambda>row. elev_top row \<noteq> None \<and> elev_bot row \<noteq> None
                           \<and> filter (\<lambda>well. wellid well = conspy_wellid row) merged = [])
                     conspy_table))])
         \<and> (\<forall>m\<in>set skips. \<forall>k. m \<noteq> No_match_report k)))"
proof -
  have one: "conspy_record buffer_dist vertical_exaggeration merged row st
        = Inr (st\<lparr>nomatch_list := nomatch_list st @ [conspy_wellid row]\<rparr>)"
    if "elev_top row \<noteq> None" "elev_bot row \<noteq> None"
      "filter (\<lambda>well. wellid well = conspy_wellid row) merged = []"
    using that by (auto simp: conspy_record_def split: option.splits)
  have all: "\<exists>skips.
         fst (polyline_geometry buffer_dist vertical_exaggeration merged conspy_table st) = None
         \<and> nomatch_list
              (snd (polyline_geometry buffer_dist vertical_exaggeration merged conspy_table st))
            = map conspy_wellid
                (filter (\<lambda>row. elev_top row \<noteq> None \<and> elev_bot row \<noteq> None
                           \<and> filter (\<lambda>well. wellid well = conspy_wellid row) merged = [])
                   conspy_table)
         \<and> c_messages
              (snd (polyline_geometry buffer_dist vertical_exaggeration merged conspy_table st))
            = c_messages st @ skips
              @ (if filter (\<lambda>row. elev_top row \<noteq> None \<and> elev_bot row \<noteq> None
                           \<and> filter (\<lambda>well. wellid well = conspy_wellid row) merged = [])
                     conspy_table = []
                 then []
                 else [No_match_report
                        (length (filter (\<lambda>row. elev_top row \<noteq> None \<and> elev_bot row \<noteq> None
                           \<and> filter (\<lambda>well. wellid well = conspy_wellid row) merged = [])
                     conspy_table))])
         \<and> (\<forall>m\<in>set skips. \<forall>k. m \<noteq> No_match_report k)"
    if nz: "buffer_dist \<noteq> 0" "vertical_exaggeration \<noteq> 0"
  proof (intro exI [of _ "List.map_filter conspy_skip_message conspy_table"] conjI)
    show "\<forall>m\<in>set (List.map_filter conspy_skip_message conspy_table). \<forall>k. m \<noteq> No_match_report k"
      using conspy_skip_message_not_report by (auto simp: List.map_filter_def)
  qed (simp_all add: polyline_geometry_run [OF nz] map_filter_conspy_nomatch)
  show ?thesis
    using one all by simp
qed

theorem unmatched_records_witness:
  "conspy_record 5 1 [merged_1] record_3 conspy_run_0
     = Inr (conspy_run_0\<lparr>nomatch_list := nomatch_list conspy_run_0 @ [NumId 7]\<rparr>)
   \<and> fst (polyline_geometry 5 1 [merged_1] [record_2, record_3, record_1] conspy_run_0) = None
   \<and> nomatch_list (snd (polyline_geometry 5 1 [merged_1] [record_2, record_3, record_1]
        conspy_run_0)) = [NumId 7]
   \<and> (\<exists>skips. c_messages (snd (polyline_geometry 5 1 [merged_1] [record_2, record_3, record_1]
        conspy_run_0)) = c_messages conspy_run_0 @ skips @ [No_match_report 1])"
proof -
  have h: "elev_top record_3 \<noteq> None \<and> elev_bot record_3 \<noteq> None
      \<and> filter (\<lambda>well. wellid well = conspy_wellid record_3) [merged_1] = []"
    by (simp add: record_3_def merged_1_def)
  have f: "filter (\<lambda>row. elev_top row \<noteq> None \<and> elev_bot row \<noteq> None
                  \<and> filter (\<lambda>well. wellid well = conspy_wellid row) [merged_1] = [])
             [record_2, record_3, record_1] = [record_3]"
    by (simp add: record_1_def record_2_def record_3_def merged_1_def)
  have w: "conspy_wellid record_3 = NumId 7" by (simp add: record_3_def)
  show ?thesis
    using h
      unmatched_records [where buffer_dist = 5 and vertical_exaggeration = 1
        and row = record_3 and merged = "[merged_1]" and rest = "[]" and st = conspy_run_0
        and conspy_table = "[record_2, record_3, record_1]"]
    unfolding f by (auto simp: w)
qed

text \<open>The claim as stated fails for a record with a null elevation: the null check comes
  first, so a record with a null \<^verbatim>\<open>elev_top\<close> whose well id matches no well point is skipped
  without reaching the no-match list, and no count is printed.\<close>

theorem null_unmatched_record_not_listed:
  "filter (\<lambda>well. wellid well = conspy_wellid record_2)
       (c_wwpt_merge (snd (CreateConspys 5 1 [record_2] [well_1] [line_A]))) = []
   \<and> nomatch_list (snd (CreateConspys 5 1 [record_2] [well_1] [line_A])) = []
   \<and> c_messages (snd (CreateConspys 5 1 [record_2] [well_1] [line_A]))
       = [Skip_null_elev_top 2]"
proof -
  have sk: "conspy_skip_message record_2 = Some (Skip_null_elev_top 2)"
    by (simp add: conspy_skip_message_def record_2_def)
  have nm: "conspy_nomatch [merged_1] record_2 = None"
    by (simp add: conspy_nomatch_def record_2_def)
  have ln: "conspy_lines_of 5 1 [merged_1] record_2 = None"
    by (simp add: conspy_lines_of_def record_2_def)
  have m: "wellid merged_1 \<noteq> conspy_wellid record_2"
    by (simp add: record_2_def merged_1_def)
  show ?thesis
    by (simp add: CreateConspys_valid extend_lines_A near_analysis_A merge_files_def
        List.map_filter_simps sk nm ln m Let_def del: extend_lines.simps near_analysis.simps)
qed

subsection \<open>Where the rows of the merged well file come from\<close>

lemma extend_lines_origin:
  "extend_lines buffer_dist xsln acc = (None, lines) \<Longrightarrow>
   \<exists>new. lines = acc @ new
     \<and> list_all2 (\<lambda>orig ext. et_id ext = et_id orig
           \<and> extend_line buffer_dist (shape orig) = Inr (shape ext)) xsln new"
proof (induction xsln arbitrary: acc)
  case Nil
  then show ?case by simp
next
  case (Cons line rest)
  from Cons.prems obtain pointlist where
    e: "extend_line buffer_dist (shape line) = Inr pointlist"
    and r: "extend_lines buffer_dist rest (acc @ [\<lparr>shape = pointlist, et_id = et_id line\<rparr>])
              = (None, lines)"
    by (auto split: sum.splits)
  from Cons.IH [OF r] obtain new where
    n: "lines = (acc @ [\<lparr>shape = pointlist, et_id = et_id line\<rparr>]) @ new"
    and a: "list_all2 (\<lambda>orig ext. et_id ext = et_id orig
           \<and> extend_line buffer_dist (shape orig) = Inr (shape ext)) rest new"
    by blast
  show ?case
    by (rule exI [of _ "\<lparr>shape = pointlist, et_id = et_id line\<rparr> # new"])
       (simp add: n a e)
qed


lemma put_file_set:
  "f \<in> set (put_file k rows fd) \<Longrightarrow> f = (k, rows) \<or> f \<in> set fd"
  by (induction fd) (auto split: if_splits)

lemma near_analysis_origin:
  "f \<in> set (near_analysis buffer_dist wwpt lines fd) \<Longrightarrow>
   f \<in> set fd
   \<or> (\<exists>line\<in>set lines. f = (et_id line,
         map (locate_well buffer_dist (shape line)) (filter (\<lambda>well. etid well = et_id line) wwpt)))"
proof (induction lines arbitrary: fd)
  case Nil
  then show ?case by simp
next
  case (Cons line rest)
  from Cons.IH [OF Cons.prems [simplified]] show ?case
    using put_file_set by fastforce
qed

lemma merged_row_origin:
  assumes "r \<in> set (merge_files (near_analysis buffer_dist wwpt lines []))"
  shows "\<exists>line\<in>set lines. \<exists>well\<in>set wwpt.
           etid well = et_id line \<and> r = locate_well buffer_dist (shape line) well"
proof -
  from assms obtain f where f: "f \<in> set (near_analysis buffer_dist wwpt lines [])"
    and r: "r \<in> set (snd f)"
    by (auto simp: merge_files_def)
  from near_analysis_origin [OF f] obtain line where l: "line \<in> set lines"
    and "f = (et_id line,
         map (locate_well buffer_dist (shape line)) (filter (\<lambda>well. etid well = et_id line) wwpt))"
    by auto
  with r show ?thesis by auto
qed

lemma locate_well_fields:
  "wellid (locate_well buffer_dist L well) = wellid well"
  "etid (locate_well buffer_dist L well) = etid well"
  "xy (locate_well buffer_dist L well) = xy well"
  "elevation (locate_well buffer_dist L well) = elevation well"
  "meas_elev (locate_well buffer_dist L well) = meas_elev well"
  "NEAR_DIST (locate_well buffer_dist L well) = fst (nearest_on_line L (xy well))"
  "(NEAR_X (locate_well buffer_dist L well), NEAR_Y (locate_well buffer_dist L well))
     = fst (snd (nearest_on_line L (xy well)))"
  "OnLine_DIST (locate_well buffer_dist L well)
     = measureOnLine L (NEAR_X (locate_well buffer_dist L well),
                        NEAR_Y (locate_well buffer_dist L well))
       - real_of_int buffer_dist"
  by (simp_all add: locate_well_def Let_def wwpt_row.defs merged_row.defs)

lemma extend_lines_set:
  "line \<in> set (snd (extend_lines buffer_dist xsln acc)) \<Longrightarrow>
   line \<in> set acc
   \<or> (\<exists>orig\<in>set xsln. et_id line = et_id orig
         \<and> extend_line buffer_dist (shape orig) = Inr (shape line))"
proof (induction xsln arbitrary: acc)
  case Nil
  then show ?case by simp
next
  case (Cons orig rest)
  show ?case
  proof (cases "extend_line buffer_dist (shape orig)")
    case (Inl e)
    with Cons.prems show ?thesis by simp
  next
    case (Inr pointlist)
    with Cons.prems have
      "line \<in> set (snd (extend_lines buffer_dist rest
          (acc @ [\<lparr>shape = pointlist, et_id = et_id orig\<rparr>])))"
      by simp
    from Cons.IH [OF this] show ?thesis using Inr by auto
  qed
qed

lemma extend_line_Inr_length:
  "extend_line buffer_dist vs = Inr vs' \<Longrightarrow> 2 \<le> length vs \<and> length vs' = length vs"
  by (auto simp: extend_line_def Let_def split: if_splits)

lemma candidate_dist: "fst (candidate m a b q) = dist_pt q (fst (snd (candidate m a b q)))"
  by (simp add: candidate_def Let_def)

lemma segment_candidates_dist:
  "c \<in> set (segment_candidates m L q) \<Longrightarrow> fst c = dist_pt q (fst (snd c))"
  by (induction m L q rule: segment_candidates.induct) (auto simp: candidate_dist)

lemma pick_nearest_mem: "pick_nearest c cs \<in> set (c # cs)"
  by (induction cs arbitrary: c) auto

lemma nearest_on_line_dist:
  assumes "2 \<le> length L"
  shows "fst (nearest_on_line L q) = dist_pt q (fst (snd (nearest_on_line L q)))"
proof -
  from assms obtain a b rest where L: "L = a # b # rest"
    by (cases L; cases "tl L") auto
  obtain c cs where s: "segment_candidates 0 L q = c # cs"
    by (simp add: L)
  have "pick_nearest c cs \<in> set (segment_candidates 0 L q)"
    using pick_nearest_mem [of c cs] by (simp add: s)
  from segment_candidates_dist [OF this] show ?thesis
    by (simp add: nearest_on_line_def s)
qed

lemma Create2Dpoints_SWL_xsln_temp:
  assumes "line \<in> set (xsln_temp (snd (Create2Dpoints_SWL buffer_dist vertical_exaggeration wwpt xsln)))"
  shows "\<exists>orig\<in>set xsln. et_id line = et_id orig
           \<and> extend_line buffer_dist (shape orig) = Inr (shape line)"
proof (cases "buffer_dist \<le> 0 \<or> vertical_exaggeration \<le> 0 \<or> wwpt = [] \<or> xsln = []")
  case True
  then have "xsln_temp (snd (Create2Dpoints_SWL buffer_dist vertical_exaggeration wwpt xsln)) = []"
    and "wwpt_merge (snd (Create2Dpoints_SWL buffer_dist vertical_exaggeration wwpt xsln)) = []"
    by (auto simp: Create2Dpoints_SWL_def Let_def)
  then show ?thesis using assms by simp
next
  case False
  then have v: "0 < buffer_dist" "0 < vertical_exaggeration" "wwpt \<noteq> []" "xsln \<noteq> []"
    by simp_all
  have "line \<in> set (snd (extend_lines buffer_dist xsln []))"
    using assms by (auto simp: Create2Dpoints_SWL_valid [OF v] split: prod.splits option.splits)
  from extend_lines_set [OF this] show ?thesis by simp
qed

lemma Create2Dpoints_SWL_wwpt_merge:
  assumes "r \<in> set (wwpt_merge (snd (Create2Dpoints_SWL buffer_dist vertical_exaggeration wwpt xsln)))"
  shows "\<exists>line\<in>set (xsln_temp (snd (Create2Dpoints_SWL buffer_dist vertical_exaggeration wwpt xsln))).
           \<exists>well\<in>set wwpt. etid well = et_id line
             \<and> r = locate_well buffer_dist (shape line) well"
proof (cases "buffer_dist \<le> 0 \<or> vertical_exaggeration \<le> 0 \<or> wwpt = [] \<or> xsln = []")
  case True
  then have "xsln_temp (snd (Create2Dpoints_SWL buffer_dist vertical_exaggeration wwpt xsln)) = []"
    and "wwpt_merge (snd (Create2Dpoints_SWL buffer_dist vertical_exaggeration wwpt xsln)) = []"
    by (auto simp: Create2Dpoints_SWL_def Let_def)
  then show ?thesis using assms by simp
next
  case False
  then have v: "0 < buffer_dist" "0 < vertical_exaggeration" "wwpt \<noteq> []" "xsln \<noteq> []"
    by simp_all
  obtain e lines where el: "extend_lines buffer_dist xsln [] = (e, lines)"
    by (cases "extend_lines buffer_dist xsln []")
  show ?thesis
  proof (cases e)
    case None
    with assms el have "r \<in> set (merge_files (near_analysis buffer_dist wwpt lines []))"
      by (simp add: Create2Dpoints_SWL_valid [OF v])
    from merged_row_origin [OF this] show ?thesis
      using el None by (simp add: Create2Dpoints_SWL_valid [OF v])
  next
    case (Some err)
    with assms el show ?thesis by (simp add: Create2Dpoints_SWL_valid [OF v])
  qed
qed

lemma Create2Dpoints_SWL_pointfile:
  "pointfile (snd (Create2Dpoints_SWL buffer_dist vertical_exaggeration wwpt xsln))
   = List.map_filter (swl_point_of buffer_dist vertical_exaggeration)
       (wwpt_merge (snd (Create2Dpoints_SWL buffer_dist vertical_exaggeration wwpt xsln)))"
proof (cases "buffer_dist \<le> 0 \<or> vertical_exaggeration \<le> 0 \<or> wwpt = [] \<or> xsln = []")
  case True
  then show ?thesis by (auto simp: Create2Dpoints_SWL_def Let_def List.map_filter_simps)
next
  case False
  then have v: "0 < buffer_dist" "0 < vertical_exaggeration" "wwpt \<noteq> []" "xsln \<noteq> []"
    by simp_all
  show ?thesis
    by (simp add: Create2Dpoints_SWL_valid [OF v] List.map_filter_simps
        split: prod.splits option.splits)
qed

lemma CreateConspys_xsln_temp:
  assumes "line \<in> set (c_xsln_temp (snd (CreateConspys buffer_dist vertical_exaggeration conspy wwpt xsln)))"
  shows "\<exists>orig\<in>set xsln. et_id line = et_id orig
           \<and> extend_line buffer_dist (shape orig) = Inr (shape line)"
proof (cases "buffer_dist \<le> 0 \<or> vertical_exaggeration \<le> 0 \<or> conspy = [] \<or> wwpt = [] \<or> xsln = []")
  case True
  then have "c_xsln_temp (snd (CreateConspys buffer_dist vertical_exaggeration conspy wwpt xsln)) = []"
    and "c_wwpt_merge (snd (CreateConspys buffer_dist vertical_exaggeration conspy wwpt xsln)) = []"
    by (auto simp: CreateConspys_def Let_def)
  then show ?thesis using assms by simp
next
  case False
  then have v: "0 < buffer_dist" "0 < vertical_exaggeration" "conspy \<noteq> []" "wwpt \<noteq> []" "xsln \<noteq> []"
    by simp_all
  have "line \<in> set (snd (extend_lines buffer_dist xsln []))"
    using assms
    by (auto simp: CreateConspys_valid [OF v] Let_def split: prod.splits option.splits)
  from extend_lines_set [OF this] show ?thesis by simp
qed

lemma CreateConspys_wwpt_merge:
  assumes "r \<in> set (c_wwpt_merge (snd (CreateConspys buffer_dist vertical_exaggeration conspy wwpt xsln)))"
  shows "\<exists>line\<in>set (c_xsln_temp (snd (CreateConspys buffer_dist vertical_exaggeration conspy wwpt xsln))).
           \<exists>well\<in>set wwpt. etid well = et_id line
             \<and> r = locate_well buffer_dist (shape line) well"
proof (cases "buffer_dist \<le> 0 \<or> vertical_exaggeration \<le> 0 \<or> conspy = [] \<or> wwpt = [] \<or> xsln = []")
  case True
  then have "c_xsln_temp (snd (CreateConspys buffer_dist vertical_exaggeration conspy wwpt xsln)) = []"
    and "c_wwpt_merge (snd (CreateConspys buffer_dist vertical_exaggeration conspy wwpt xsln)) = []"
    by (auto simp: CreateConspys_def Let_def)
  then show ?thesis using assms by simp
next
  case False
  then have v: "0 < buffer_dist" "0 < vertical_exaggeration" "conspy \<noteq> []" "wwpt \<noteq> []" "xsln \<noteq> []"
    by simp_all
  obtain e lines where el: "extend_lines buffer_dist xsln [] = (e, lines)"
    by (cases "extend_lines buffer_dist xsln []")
  show ?thesis
  proof (cases e)
    case None
    with assms el have "r \<in> set (merge_files (near_analysis buffer_dist wwpt lines []))"
      by (simp add: CreateConspys_valid [OF v] Let_def)
    from merged_row_origin [OF this] show ?thesis
      using el None by (simp add: CreateConspys_valid [OF v] Let_def)
  next
    case (Some err)
    with assms el show ?thesis by (simp add: CreateConspys_valid [OF v])
  qed
qed

lemma CreateConspys_polylinefile_2d:
  "polylinefile_2d (snd (CreateConspys buffer_dist vertical_exaggeration conspy wwpt xsln))
   = map snd (List.map_filter
       (conspy_lines_of buffer_dist vertical_exaggeration
          (c_wwpt_merge (snd (CreateConspys buffer_dist vertical_exaggeration conspy wwpt xsln))))
       conspy)"
proof -
  have none: "List.map_filter (conspy_lines_of buffer_dist vertical_exaggeration []) conspy = []"
    by (induction conspy)
       (simp_all add: List.map_filter_simps conspy_lines_of_def matching_wells_def
          split: option.splits)
  show ?thesis
  proof (cases "buffer_dist \<le> 0 \<or> vertical_exaggeration \<le> 0 \<or> conspy = [] \<or> wwpt = [] \<or> xsln = []")
    case True
    then show ?thesis using none by (auto simp: CreateConspys_def Let_def)
  next
    case False
    then have v: "0 < buffer_dist" "0 < vertical_exaggeration" "conspy \<noteq> []" "wwpt \<noteq> []" "xsln \<noteq> []"
      by simp_all
    show ?thesis
      using none
      by (simp add: CreateConspys_valid [OF v] Let_def split: prod.splits option.splits)
  qed
qed

lemma map_filter_set: "y \<in> set (List.map_filter f xs) \<longleftrightarrow> (\<exists>x\<in>set xs. f x = Some y)"
  by (induction xs) (auto simp: List.map_filter_simps split: option.splits)

lemma swl_point_of_Some:
  "swl_point_of buffer_dist vertical_exaggeration well = Some p \<Longrightarrow>
   \<exists>well_z swl_z. elevation well = Some well_z \<and> meas_elev well = Some swl_z
     \<and> pt_wellid p = wellid well
     \<and> pt_x_coord_2d p = real_of_int (py_int (OnLine_DIST well)) / 0.3048
          / real_of_int vertical_exaggeration
     \<and> pt_y_coord_2d p = swl_z
     \<and> pt_geometry p = (pt_x_coord_2d p, pt_y_coord_2d p)
     \<and> pt_distance p = NEAR_DIST well
     \<and> pt_pct_dist p = NEAR_DIST well / real_of_int buffer_dist * 200"
  by (auto simp: swl_point_of_def split: option.splits)

lemma conspy_lines_of_Some:
  "conspy_lines_of buffer_dist vertical_exaggeration merged row = Some (l3, l) \<Longrightarrow>
   \<exists>top bot. elev_top row = Some top \<and> elev_bot row = Some bot
     \<and> filter (\<lambda>well. wellid well = conspy_wellid row) merged \<noteq> []
     \<and> l2_wellid l = conspy_wellid row
     \<and> l2_conspy_oid l = conspy_oid row
     \<and> l2_geometry l =
         [(OnLine_DIST (last (filter (\<lambda>well. wellid well = conspy_wellid row) merged)) / 0.3048
             / real_of_int vertical_exaggeration, top),
          (OnLine_DIST (last (filter (\<lambda>well. wellid well = conspy_wellid row) merged)) / 0.3048
             / real_of_int vertical_exaggeration, bot)]
     \<and> l2_distance l = NEAR_DIST (last (filter (\<lambda>well. wellid well = conspy_wellid row) merged))
     \<and> l2_pct_dist l
         = NEAR_DIST (last (filter (\<lambda>well. wellid well = conspy_wellid row) merged))
             / real_of_int buffer_dist * 200"
  by (auto simp: conspy_lines_of_def matching_wells_def well_vars_of_def Let_def
      split: option.splits if_splits)

lemma last_filter_mem:
  "filter P xs \<noteq> [] \<Longrightarrow> last (filter P xs) \<in> set xs \<and> P (last (filter P xs))"
  using last_in_set [of "filter P xs"] by auto

lemma merged_row_near:
  assumes r: "r = locate_well buffer_dist (shape line) well"
    and e: "extend_line buffer_dist (shape orig) = Inr (shape line)"
  shows "NEAR_DIST r = fst (nearest_on_line (shape line) (xy r))
    \<and> NEAR_DIST r = dist_pt (xy r) (NEAR_X r, NEAR_Y r)"
proof -
  have len: "2 \<le> length (shape line)"
    using extend_line_Inr_length [OF e] by simp
  show ?thesis
    using nearest_on_line_dist [OF len, of "xy well"]
    by (simp add: r locate_well_fields(3,6) locate_well_fields(7))
qed

lemma extend_line_B: "extend_line 5 (shape line_B) = Inr [(-5, 4), (15, 4)]"
  by (simp add: line_B_def geometry_eval)

lemma extend_lines_A_B:
  "extend_lines 5 [line_A, line_B] [] =
     (None, [\<lparr>shape = [(-5, 0), (15, 0)], et_id = ''A''\<rparr>,
             \<lparr>shape = [(-5, 4), (15, 4)], et_id = ''B''\<rparr>])"
  by (simp add: extend_line_A extend_line_B) (simp add: line_A_def line_B_def)

lemma near_analysis_A_B:
  "near_analysis 5 [well_1] [\<lparr>shape = [(-5, 0), (15, 0)], et_id = ''A''\<rparr>,
        \<lparr>shape = [(-5, 4), (15, 4)], et_id = ''B''\<rparr>] []
   = [(''A'', [merged_1]), (''B'', [])]"
proof -
  have "etid well_1 = ''A''" by (simp add: well_1_def)
  then show ?thesis by (simp add: locate_well_1)
qed

lemma put_file_keys: "fst ` set (put_file k rows fd) = insert k (fst ` set fd)"
proof (induction fd)
  case Nil
  show ?case by simp
next
  case (Cons p fd)
  obtain k' rows' where p: "p = (k', rows')" by (cases p)
  show ?case
  proof (cases "k' = k")
    case True
    then show ?thesis by (simp add: p)
  next
    case False
    then show ?thesis using Cons.IH by (simp add: p insert_commute)
  qed
qed

lemma near_analysis_keys:
  "fst ` set (near_analysis buffer_dist wwpt lines fd) = fst ` set fd \<union> et_id ` set lines"
  by (induction lines arbitrary: fd) (auto simp: put_file_keys)

lemma located_wells_merged:
  assumes line: "line \<in> set lines" and well: "well \<in> set wwpt"
    and e: "etid well = et_id line"
  shows "\<exists>used\<in>set lines. et_id used = etid well
    \<and> locate_well buffer_dist (shape used) well
        \<in> set (merge_files (near_analysis buffer_dist wwpt lines []))"
proof -
  have "et_id line \<in> fst ` set (near_analysis buffer_dist wwpt lines [])"
    using line by (simp add: near_analysis_keys)
  then obtain f where f: "f \<in> set (near_analysis buffer_dist wwpt lines [])"
    and k: "fst f = et_id line"
    by auto
  from near_analysis_origin [OF f] obtain used where u: "used \<in> set lines"
    and fu: "f = (et_id used,
         map (locate_well buffer_dist (shape used)) (filter (\<lambda>well. etid well = et_id used) wwpt))"
    by auto
  have eu: "et_id used = etid well" using k fu e by simp
  have "locate_well buffer_dist (shape used) well \<in> set (snd f)"
    using well eu by (simp add: fu)
  then have "locate_well buffer_dist (shape used) well
      \<in> set (merge_files (near_analysis buffer_dist wwpt lines []))"
    using f by (auto simp: merge_files_def)
  with u eu show ?thesis by blast
qed

lemma extend_lines_covers:
  assumes l: "extend_lines buffer_dist xsln [] = (None, lines)" and o: "orig \<in> set xsln"
  shows "\<exists>ext\<in>set lines. et_id ext = et_id orig"
proof -
  from extend_lines_origin [OF l] have
    a: "list_all2 (\<lambda>orig ext. et_id ext = et_id orig
           \<and> extend_line buffer_dist (shape orig) = Inr (shape ext)) xsln lines"
    by simp
  from o obtain k where k: "k < length xsln" "xsln ! k = orig"
    by (auto simp: in_set_conv_nth)
  have "lines ! k \<in> set lines" using k(1) list_all2_lengthD [OF a] by simp
  moreover have "et_id (lines ! k) = et_id orig"
    using list_all2_nthD [OF a k(1)] k(2) by simp
  ultimately show ?thesis by blast
qed

lemma located_wells_extended:
  assumes l: "extend_lines buffer_dist xsln [] = (None, lines)"
    and o: "orig \<in> set xsln" and w: "well \<in> set wwpt" and e: "etid well = et_id orig"
  shows "\<exists>r\<in>set (merge_files (near_analysis buffer_dist wwpt lines [])).
           \<exists>used\<in>set xsln. \<exists>L.
             et_id used = etid well \<and> extend_line buffer_dist (shape used) = Inr L
             \<and> r = locate_well buffer_dist L well"
proof -
  from extend_lines_covers [OF l o] obtain ext where
    x: "ext \<in> set lines" "et_id ext = et_id orig" by blast
  from located_wells_merged [OF x(1) w, of buffer_dist] e x(2) obtain line where
    u: "line \<in> set lines" "et_id line = etid well"
      "locate_well buffer_dist (shape line) well
         \<in> set (merge_files (near_analysis buffer_dist wwpt lines []))"
    by auto
  have "line \<in> set (snd (extend_lines buffer_dist xsln []))" using u(1) l by simp
  from extend_lines_set [OF this] obtain used :: xsln_row where
    s: "used \<in> set xsln" "et_id line = et_id used"
      "extend_line buffer_dist (shape used) = Inr (shape line)"
    by auto
  have 1: "et_id used = etid well" using s(2) u(2) by simp
  show ?thesis
    by (intro bexI [OF _ u(3)] bexI [OF _ s(1)] exI [of _ "shape line"] conjI 1 s(3) refl)
qed

lemma Create2Dpoints_SWL_completed:
  assumes "fst (Create2Dpoints_SWL buffer_dist vertical_exaggeration wwpt xsln) = None"
  shows "\<exists>lines. extend_lines buffer_dist xsln [] = (None, lines)
    \<and> wwpt_merge (snd (Create2Dpoints_SWL buffer_dist vertical_exaggeration wwpt xsln))
        = merge_files (near_analysis buffer_dist wwpt lines [])"
proof (cases "buffer_dist \<le> 0 \<or> vertical_exaggeration \<le> 0 \<or> wwpt = [] \<or> xsln = []")
  case True
  from Create2Dpoints_SWL_invalid [OF True] assms show ?thesis by simp
next
  case False
  then have v: "0 < buffer_dist" "0 < vertical_exaggeration" "wwpt \<noteq> []" "xsln \<noteq> []"
    by simp_all
  obtain e lines where el: "extend_lines buffer_dist xsln [] = (e, lines)"
    by (cases "extend_lines buffer_dist xsln []")
  show ?thesis
    using assms el by (cases e) (simp_all add: Create2Dpoints_SWL_valid [OF v])
qed

lemma CreateConspys_completed:
  assumes "fst (CreateConspys buffer_dist vertical_exaggeration conspy wwpt xsln) = None"
  shows "\<exists>lines. extend_lines buffer_dist xsln [] = (None, lines)
    \<and> c_wwpt_merge (snd (CreateConspys buffer_dist vertical_exaggeration conspy wwpt xsln))
        = merge_files (near_analysis buffer_dist wwpt lines [])"
proof (cases "buffer_dist \<le> 0 \<or> vertical_exaggeration \<le> 0 \<or> conspy = [] \<or> wwpt = [] \<or> xsln = []")
  case True
  from CreateConspys_invalid [OF True] assms show ?thesis by simp
next
  case False
  then have v: "0 < buffer_dist" "0 < vertical_exaggeration" "conspy \<noteq> []" "wwpt \<noteq> []" "xsln \<noteq> []"
    by simp_all
  obtain e lines where el: "extend_lines buffer_dist xsln [] = (e, lines)"
    by (cases "extend_lines buffer_dist xsln []")
  show ?thesis
    using assms el by (cases e) (simp_all add: CreateConspys_valid [OF v] Let_def)
qed

subsection \<open>The 2D coordinates and the percent distance\<close>

text \<open>
  What the geometry loops write. Every row of the 2D point file comes from a row of \<^verbatim>\<open>wwpt_merge\<close> with
  non-null elevation and \<^verbatim>\<open>meas_elev\<close>, and every such row gives one: its geometry is
  \<open>(int(s) / 0.3048 / vertical_exaggeration, meas_elev)\<close>, where \<open>s\<close> is \<^verbatim>\<open>OnLine_DIST\<close> and \<^verbatim>\<open>int\<close>
  drops the fractional part of \<open>s\<close> before the conversion to feet. Every row of the 2D
  polyline file of the construction script comes from a construction record with both
  elevations and a matching well row: its two vertices are
  \<open>(s / 0.3048 / vertical_exaggeration, elev_top)\<close> and the same with \<open>elev_bot\<close>. The
  y-coordinates are the elevation values unchanged.
\<close>

lemma display_coordinates:
  "(\<forall>p\<in>set (pointfile (snd (Create2Dpoints_SWL buffer_dist vertical_exaggeration wwpt xsln))).
      \<exists>well\<in>set (wwpt_merge (snd (Create2Dpoints_SWL buffer_dist vertical_exaggeration wwpt xsln))).
      \<exists>well_z swl_z.
        elevation well = Some well_z \<and> meas_elev well = Some swl_z
        \<and> pt_wellid p = wellid well
        \<and> pt_x_coord_2d p = real_of_int (py_int (OnLine_DIST well)) / 0.3048
             / real_of_int vertical_exaggeration
        \<and> pt_y_coord_2d p = swl_z
        \<and> pt_geometry p = (pt_x_coord_2d p, pt_y_coord_2d p))
   \<and> (\<forall>well\<in>set (wwpt_merge (snd (Create2Dpoints_SWL buffer_dist vertical_exaggeration wwpt xsln))).
      \<forall>well_z swl_z. elevation well = Some well_z \<and> meas_elev well = Some swl_z \<longrightarrow>
        (\<exists>p\<in>set (pointfile (snd (Create2Dpoints_SWL buffer_dist vertical_exaggeration wwpt xsln))).
           pt_wellid p = wellid well
           \<and> pt_geometry p = (real_of_int (py_int (OnLine_DIST well)) / 0.3048
                / real_of_int vertical_exaggeration, swl_z)))
   \<and> (\<forall>l\<in>set (polylinefile_2d (snd (CreateConspys buffer_dist vertical_exaggeration conspy wwpt xsln))).
      \<exists>row\<in>set conspy.
      \<exists>well\<in>set (c_wwpt_merge (snd (CreateConspys buffer_dist vertical_exaggeration conspy wwpt xsln))).
      \<exists>top bot.
        elev_top row = Some top \<and> elev_bot row = Some bot
        \<and> wellid well = conspy_wellid row \<and> l2_wellid l = conspy_wellid row
        \<and> l2_conspy_oid l = conspy_oid row
        \<and> l2_geometry l =
            [(OnLine_DIST well / 0.3048 / real_of_int vertical_exaggeration, top),
             (OnLine_DIST well / 0.3048 / real_of_int vertical_exaggeration, bot)])"
proof (intro conjI ballI allI impI)
  fix p
  assume "p \<in> set (pointfile (snd (Create2Dpoints_SWL buffer_dist vertical_exaggeration wwpt xsln)))"
  then obtain well where
    w: "well \<in> set (wwpt_merge (snd (Create2Dpoints_SWL buffer_dist vertical_exaggeration wwpt xsln)))"
    and p: "swl_point_of buffer_dist vertical_exaggeration well = Some p"
    unfolding Create2Dpoints_SWL_pointfile map_filter_set by blast
  from swl_point_of_Some [OF p] w
  show "\<exists>well\<in>set (wwpt_merge (snd (Create2Dpoints_SWL buffer_dist vertical_exaggeration wwpt xsln))).
      \<exists>well_z swl_z.
        elevation well = Some well_z \<and> meas_elev well = Some swl_z
        \<and> pt_wellid p = wellid well
        \<and> pt_x_coord_2d p = real_of_int (py_int (OnLine_DIST well)) / 0.3048
             / real_of_int vertical_exaggeration
        \<and> pt_y_coord_2d p = swl_z
        \<and> pt_geometry p = (pt_x_coord_2d p, pt_y_coord_2d p)"
    by blast
next
  fix well well_z swl_z
  assume w: "well \<in> set (wwpt_merge (snd (Create2Dpoints_SWL buffer_dist vertical_exaggeration wwpt xsln)))"
    and n: "elevation well = Some well_z \<and> meas_elev well = Some swl_z"
  then obtain p where p: "swl_point_of buffer_dist vertical_exaggeration well = Some p"
    by (simp add: swl_point_of_def)
  then have "p \<in> set (pointfile (snd (Create2Dpoints_SWL buffer_dist vertical_exaggeration wwpt xsln)))"
    unfolding Create2Dpoints_SWL_pointfile map_filter_set using w by blast
  moreover from swl_point_of_Some [OF p] n
  have "pt_wellid p = wellid well
           \<and> pt_geometry p = (real_of_int (py_int (OnLine_DIST well)) / 0.3048
                / real_of_int vertical_exaggeration, swl_z)"
    by auto
  ultimately
  show "\<exists>p\<in>set (pointfile (snd (Create2Dpoints_SWL buffer_dist vertical_exaggeration wwpt xsln))).
           pt_wellid p = wellid well
           \<and> pt_geometry p = (real_of_int (py_int (OnLine_DIST well)) / 0.3048
                / real_of_int vertical_exaggeration, swl_z)"
    by blast
next
  fix l
  let ?merged = "c_wwpt_merge (snd (CreateConspys buffer_dist vertical_exaggeration conspy wwpt xsln))"
  assume "l \<in> set (polylinefile_2d (snd (CreateConspys buffer_dist vertical_exaggeration conspy wwpt xsln)))"
  then obtain pr where pr: "pr \<in> set (List.map_filter
       (conspy_lines_of buffer_dist vertical_exaggeration ?merged) conspy)" and sl: "snd pr = l"
    unfolding CreateConspys_polylinefile_2d by auto
  from pr obtain row where row: "row \<in> set conspy"
    and cl: "conspy_lines_of buffer_dist vertical_exaggeration ?merged row = Some pr"
    unfolding map_filter_set by blast
  from cl sl have l: "conspy_lines_of buffer_dist vertical_exaggeration ?merged row = Some (fst pr, l)"
    by (cases pr) simp
  from conspy_lines_of_Some [OF l] obtain top bot where
    f: "elev_top row = Some top" "elev_bot row = Some bot"
      "filter (\<lambda>well. wellid well = conspy_wellid row) ?merged \<noteq> []"
      "l2_wellid l = conspy_wellid row" "l2_conspy_oid l = conspy_oid row"
      "l2_geometry l =
         [(OnLine_DIST (last (filter (\<lambda>well. wellid well = conspy_wellid row) ?merged)) / 0.3048
             / real_of_int vertical_exaggeration, top),
          (OnLine_DIST (last (filter (\<lambda>well. wellid well = conspy_wellid row) ?merged)) / 0.3048
             / real_of_int vertical_exaggeration, bot)]"
    by blast
  let ?well = "last (filter (\<lambda>well. wellid well = conspy_wellid row) ?merged)"
  have m: "?well \<in> set ?merged" "wellid ?well = conspy_wellid row"
    using last_filter_mem [OF f(3)] by simp_all
  show "\<exists>row\<in>set conspy. \<exists>well\<in>set ?merged. \<exists>top bot.
        elev_top row = Some top \<and> elev_bot row = Some bot
        \<and> wellid well = conspy_wellid row \<and> l2_wellid l = conspy_wellid row
        \<and> l2_conspy_oid l = conspy_oid row
        \<and> l2_geometry l =
            [(OnLine_DIST well / 0.3048 / real_of_int vertical_exaggeration, top),
             (OnLine_DIST well / 0.3048 / real_of_int vertical_exaggeration, bot)]"
    by (intro bexI [OF _ row] bexI [OF _ m(1)] exI [of _ top] exI [of _ bot] conjI f m(2))
qed

lemma display_coordinates_example:
  "point_1 \<in> set (pointfile (snd (Create2Dpoints_SWL 5 1 [well_1] [line_A])))
   \<and> (\<exists>well\<in>set (wwpt_merge (snd (Create2Dpoints_SWL 5 1 [well_1] [line_A]))).
        pt_x_coord_2d point_1 = real_of_int (py_int (OnLine_DIST well)) / 0.3048 / real_of_int 1
        \<and> meas_elev well = Some (pt_y_coord_2d point_1))
   \<and> (\<exists>p\<in>set (pointfile (snd (Create2Dpoints_SWL 5 1 [well_1] [line_A]))).
        pt_geometry p = (real_of_int (py_int (OnLine_DIST merged_1)) / 0.3048 / real_of_int 1, 90))
   \<and> (\<exists>l\<in>set (polylinefile_2d (snd (CreateConspys 5 1 [record_1] [well_1] [line_A]))).
        l2_geometry l = [(OnLine_DIST merged_1 / 0.3048 / real_of_int 1, 95),
                         (OnLine_DIST merged_1 / 0.3048 / real_of_int 1, 60)])"
proof -
  have m: "point_1 \<in> set (pointfile (snd (Create2Dpoints_SWL 5 1 [well_1] [line_A])))"
    by (simp add: Create2Dpoints_SWL_example point_1_def)
  have w: "merged_1 \<in> set (wwpt_merge (snd (Create2Dpoints_SWL 5 1 [well_1] [line_A])))"
    by (simp add: Create2Dpoints_SWL_example)
  have n: "elevation merged_1 = Some 100 \<and> meas_elev merged_1 = Some 90"
    by (simp add: merged_1_def)
  have l: "polylinefile_2d (snd (CreateConspys 5 1 [record_1] [well_1] [line_A])) \<noteq> []"
    by (simp add: CreateConspys_example)
  have c: "c_wwpt_merge (snd (CreateConspys 5 1 [record_1] [well_1] [line_A])) = [merged_1]"
    by (simp add: CreateConspys_example)
  have t: "elev_top record_1 = Some 95 \<and> elev_bot record_1 = Some 60"
    by (simp add: record_1_def)
  note d = display_coordinates [where buffer_dist = 5 and vertical_exaggeration = 1
      and wwpt = "[well_1]" and xsln = "[line_A]" and conspy = "[record_1]"]
  from d [THEN conjunct1, rule_format, OF m]
  have 1: "\<exists>well\<in>set (wwpt_merge (snd (Create2Dpoints_SWL 5 1 [well_1] [line_A]))).
        pt_x_coord_2d point_1 = real_of_int (py_int (OnLine_DIST well)) / 0.3048 / real_of_int 1
        \<and> meas_elev well = Some (pt_y_coord_2d point_1)"
    by auto
  from d [THEN conjunct2, THEN conjunct1, rule_format, OF w n]
  have 2: "\<exists>p\<in>set (pointfile (snd (Create2Dpoints_SWL 5 1 [well_1] [line_A]))).
        pt_geometry p = (real_of_int (py_int (OnLine_DIST merged_1)) / 0.3048 / real_of_int 1, 90)"
    by auto
  from l obtain l2 where
    l2: "l2 \<in> set (polylinefile_2d (snd (CreateConspys 5 1 [record_1] [well_1] [line_A])))"
    by (cases "polylinefile_2d (snd (CreateConspys 5 1 [record_1] [well_1] [line_A]))") auto
  from d [THEN conjunct2, THEN conjunct2, rule_format, OF l2] t
  have 3: "\<exists>l\<in>set (polylinefile_2d (snd (CreateConspys 5 1 [record_1] [well_1] [line_A]))).
        l2_geometry l = [(OnLine_DIST merged_1 / 0.3048 / real_of_int 1, 95),
                         (OnLine_DIST merged_1 / 0.3048 / real_of_int 1, 60)]"
    unfolding c using l2 by auto
  show ?thesis using m 1 2 3 by blast
qed

text \<open>
  Claim C2. In the static water level script the 2D x-coordinate written for a well is not
  its along-line distance in feet divided by the vertical exaggeration. On the example
  inputs the well is not skipped, its along-line distance is \<open>1/2\<close> and its \<^verbatim>\<open>meas_elev\<close> is 90;
  the point written is \<open>(0, 90)\<close>: the y-coordinate is \<^verbatim>\<open>meas_elev\<close> unchanged, the x-coordinate
  is 0 and not \<open>1/2 / 0.3048 / 1\<close>.
\<close>

theorem swl_x_coordinate_truncated:
  "OnLine_DIST (hd (wwpt_merge (snd (Create2Dpoints_SWL 5 1 [well_1] [line_A])))) = 1/2
   \<and> meas_elev (hd (wwpt_merge (snd (Create2Dpoints_SWL 5 1 [well_1] [line_A])))) = Some 90
   \<and> pt_geometry (hd (pointfile (snd (Create2Dpoints_SWL 5 1 [well_1] [line_A])))) = (0, 90)
   \<and> pt_x_coord_2d (hd (pointfile (snd (Create2Dpoints_SWL 5 1 [well_1] [line_A])))) = 0
   \<and> pt_y_coord_2d (hd (pointfile (snd (Create2Dpoints_SWL 5 1 [well_1] [line_A])))) = 90
   \<and> pt_x_coord_2d (hd (pointfile (snd (Create2Dpoints_SWL 5 1 [well_1] [line_A]))))
       \<noteq> OnLine_DIST (hd (wwpt_merge (snd (Create2Dpoints_SWL 5 1 [well_1] [line_A]))))
           / 0.3048 / real_of_int 1"
  by (simp add: Create2Dpoints_SWL_example merged_1_def)

text \<open>
  Claim C4. In every row of a 2D output, \<^verbatim>\<open>pct_dist\<close> is the row's distance divided by
  \<open>buffer_dist\<close> and multiplied by 200, and the distance is the \<^verbatim>\<open>NEAR_DIST\<close> of the well: the
  distance from the well point to its near point on the (extended) cross-section line of
  the well's cross-section id.
\<close>

theorem pct_dist_formula:
  "(\<forall>p\<in>set (pointfile (snd (Create2Dpoints_SWL buffer_dist vertical_exaggeration wwpt xsln))).
      pt_pct_dist p = pt_distance p / real_of_int buffer_dist * 200
      \<and> (\<exists>well\<in>set (wwpt_merge (snd (Create2Dpoints_SWL buffer_dist vertical_exaggeration wwpt xsln))).
          \<exists>line\<in>set (xsln_temp (snd (Create2Dpoints_SWL buffer_dist vertical_exaggeration wwpt xsln))).
            pt_wellid p = wellid well \<and> etid well = et_id line
            \<and> pt_distance p = NEAR_DIST well
            \<and> NEAR_DIST well = fst (nearest_on_line (shape line) (xy well))
            \<and> NEAR_DIST well = dist_pt (xy well) (NEAR_X well, NEAR_Y well)))
   \<and> (\<forall>l\<in>set (polylinefile_2d (snd (CreateConspys buffer_dist vertical_exaggeration conspy wwpt xsln))).
      l2_pct_dist l = l2_distance l / real_of_int buffer_dist * 200
      \<and> (\<exists>well\<in>set (c_wwpt_merge (snd (CreateConspys buffer_dist vertical_exaggeration conspy wwpt xsln))).
          \<exists>line\<in>set (c_xsln_temp (snd (CreateConspys buffer_dist vertical_exaggeration conspy wwpt xsln))).
            l2_wellid l = wellid well \<and> etid well = et_id line
            \<and> l2_distance l = NEAR_DIST well
            \<and> NEAR_DIST well = fst (nearest_on_line (shape line) (xy well))
            \<and> NEAR_DIST well = dist_pt (xy well) (NEAR_X well, NEAR_Y well)))"
proof (intro conjI ballI)
  fix p
  let ?run = "snd (Create2Dpoints_SWL buffer_dist vertical_exaggeration wwpt xsln)"
  assume "p \<in> set (pointfile ?run)"
  then obtain well where w: "well \<in> set (wwpt_merge ?run)"
    and p: "swl_point_of buffer_dist vertical_exaggeration well = Some p"
    unfolding Create2Dpoints_SWL_pointfile map_filter_set by blast
  from swl_point_of_Some [OF p] have f: "pt_wellid p = wellid well"
    "pt_distance p = NEAR_DIST well"
    "pt_pct_dist p = NEAR_DIST well / real_of_int buffer_dist * 200"
    by auto
  show "pt_pct_dist p = pt_distance p / real_of_int buffer_dist * 200"
    by (simp add: f)
  from Create2Dpoints_SWL_wwpt_merge [OF w] obtain line src where
    line: "line \<in> set (xsln_temp ?run)" and e: "etid src = et_id line"
    and r: "well = locate_well buffer_dist (shape line) src"
    by blast
  from Create2Dpoints_SWL_xsln_temp [OF line] obtain orig :: xsln_row where
    o: "extend_line buffer_dist (shape orig) = Inr (shape line)" by auto
  have e': "etid well = et_id line" by (simp add: r locate_well_fields e)
  note n = merged_row_near [OF r o]
  show "\<exists>well\<in>set (wwpt_merge ?run). \<exists>line\<in>set (xsln_temp ?run).
            pt_wellid p = wellid well \<and> etid well = et_id line
            \<and> pt_distance p = NEAR_DIST well
            \<and> NEAR_DIST well = fst (nearest_on_line (shape line) (xy well))
            \<and> NEAR_DIST well = dist_pt (xy well) (NEAR_X well, NEAR_Y well)"
    by (intro bexI [OF _ w] bexI [OF _ line] conjI f(1,2) e' n [THEN conjunct1]
        n [THEN conjunct2])
next
  fix l
  let ?run = "snd (CreateConspys buffer_dist vertical_exaggeration conspy wwpt xsln)"
  assume "l \<in> set (polylinefile_2d ?run)"
  then obtain pr where pr: "pr \<in> set (List.map_filter
       (conspy_lines_of buffer_dist vertical_exaggeration (c_wwpt_merge ?run)) conspy)"
    and sl: "snd pr = l"
    unfolding CreateConspys_polylinefile_2d by auto
  from pr obtain row where row: "row \<in> set conspy"
    and cl: "conspy_lines_of buffer_dist vertical_exaggeration (c_wwpt_merge ?run) row = Some pr"
    unfolding map_filter_set by blast
  from cl sl have l: "conspy_lines_of buffer_dist vertical_exaggeration (c_wwpt_merge ?run) row
      = Some (fst pr, l)"
    by (cases pr) simp
  let ?well = "last (filter (\<lambda>well. wellid well = conspy_wellid row) (c_wwpt_merge ?run))"
  from conspy_lines_of_Some [OF l] have
    f: "filter (\<lambda>well. wellid well = conspy_wellid row) (c_wwpt_merge ?run) \<noteq> []"
      "l2_wellid l = conspy_wellid row"
      "l2_distance l = NEAR_DIST ?well"
      "l2_pct_dist l = NEAR_DIST ?well / real_of_int buffer_dist * 200"
    by blast+
  have w: "?well \<in> set (c_wwpt_merge ?run)" and wi: "l2_wellid l = wellid ?well"
    using last_filter_mem [OF f(1)] f(2) by simp_all
  show "l2_pct_dist l = l2_distance l / real_of_int buffer_dist * 200"
    by (simp add: f(3,4))
  from CreateConspys_wwpt_merge [OF w] obtain line src where
    line: "line \<in> set (c_xsln_temp ?run)" and e: "etid src = et_id line"
    and r: "?well = locate_well buffer_dist (shape line) src"
    by blast
  from CreateConspys_xsln_temp [OF line] obtain orig :: xsln_row where
    o: "extend_line buffer_dist (shape orig) = Inr (shape line)" by auto
  have e': "etid ?well = et_id line" by (simp add: r locate_well_fields e)
  note n = merged_row_near [OF r o]
  show "\<exists>well\<in>set (c_wwpt_merge ?run). \<exists>line\<in>set (c_xsln_temp ?run).
            l2_wellid l = wellid well \<and> etid well = et_id line
            \<and> l2_distance l = NEAR_DIST well
            \<and> NEAR_DIST well = fst (nearest_on_line (shape line) (xy well))
            \<and> NEAR_DIST well = dist_pt (xy well) (NEAR_X well, NEAR_Y well)"
    by (intro bexI [OF _ w] bexI [OF _ line] conjI wi f(3) e' n [THEN conjunct1]
        n [THEN conjunct2])
qed

theorem pct_dist_formula_witness:
  "point_1 \<in> set (pointfile (snd (Create2Dpoints_SWL 5 1 [well_1] [line_A])))
   \<and> pt_pct_dist point_1 = pt_distance point_1 / real_of_int 5 * 200
   \<and> pt_pct_dist point_1 = 120
   \<and> (\<exists>l\<in>set (polylinefile_2d (snd (CreateConspys 5 1 [record_1] [well_1] [line_A]))).
        l2_pct_dist l = l2_distance l / real_of_int 5 * 200)"
proof -
  have m: "point_1 \<in> set (pointfile (snd (Create2Dpoints_SWL 5 1 [well_1] [line_A])))"
    by (simp add: Create2Dpoints_SWL_example point_1_def)
  have l: "polylinefile_2d (snd (CreateConspys 5 1 [record_1] [well_1] [line_A])) \<noteq> []"
    by (simp add: CreateConspys_example)
  then obtain l2 where
    l2: "l2 \<in> set (polylinefile_2d (snd (CreateConspys 5 1 [record_1] [well_1] [line_A])))"
    by (cases "polylinefile_2d (snd (CreateConspys 5 1 [record_1] [well_1] [line_A]))") auto
  note d = pct_dist_formula [where buffer_dist = 5 and vertical_exaggeration = 1
      and wwpt = "[well_1]" and xsln = "[line_A]" and conspy = "[record_1]"]
  from d [THEN conjunct1, rule_format, OF m]
  have 1: "pt_pct_dist point_1 = pt_distance point_1 / real_of_int 5 * 200" by simp
  from d [THEN conjunct2, rule_format, OF l2]
  have 2: "l2_pct_dist l2 = l2_distance l2 / real_of_int 5 * 200" by simp
  have 3: "pt_pct_dist point_1 = 120" by (simp add: point_1_def)
  show ?thesis using m 1 2 3 l2 by blast
qed

subsection \<open>The line a well is projected onto\<close>

text \<open>
  Claim C3, amended. Every row of \<^verbatim>\<open>wwpt_merge\<close> is a well located against the extended version
  of a cross-section line whose \<^verbatim>\<open>et_id\<close> equals the well's own cross-section id: the line is
  chosen by the id, not by the distance. When the run completes, every well whose
  cross-section id is the \<^verbatim>\<open>et_id\<close> of some line has such a row.
\<close>

theorem projection_line_by_et_id:
  "(\<forall>r\<in>set (wwpt_merge (snd (Create2Dpoints_SWL buffer_dist vertical_exaggeration wwpt xsln))).
      \<exists>orig\<in>set xsln. \<exists>well\<in>set wwpt. \<exists>L.
        et_id orig = etid well \<and> etid r = etid well
        \<and> extend_line buffer_dist (shape orig) = Inr L
        \<and> r = locate_well buffer_dist L well)
   \<and> (\<forall>r\<in>set (c_wwpt_merge (snd (CreateConspys buffer_dist vertical_exaggeration conspy wwpt xsln))).
      \<exists>orig\<in>set xsln. \<exists>well\<in>set wwpt. \<exists>L.
        et_id orig = etid well \<and> etid r = etid well
        \<and> extend_line buffer_dist (shape orig) = Inr L
        \<and> r = locate_well buffer_dist L well)
   \<and> (fst (Create2Dpoints_SWL buffer_dist vertical_exaggeration wwpt xsln) = None \<longrightarrow>
      (\<forall>well\<in>set wwpt. \<forall>line\<in>set xsln. etid well = et_id line \<longrightarrow>
        (\<exists>r\<in>set (wwpt_merge (snd (Create2Dpoints_SWL buffer_dist vertical_exaggeration wwpt xsln))).
         \<exists>orig\<in>set xsln. \<exists>L.
           et_id orig = etid well \<and> extend_line buffer_dist (shape orig) = Inr L
           \<and> r = locate_well buffer_dist L well)))
   \<and> (fst (CreateConspys buffer_dist vertical_exaggeration conspy wwpt xsln) = None \<longrightarrow>
      (\<forall>well\<in>set wwpt. \<forall>line\<in>set xsln. etid well = et_id line \<longrightarrow>
        (\<exists>r\<in>set (c_wwpt_merge (snd (CreateConspys buffer_dist vertical_exaggeration conspy wwpt xsln))).
         \<exists>orig\<in>set xsln. \<exists>L.
           et_id orig = etid well \<and> extend_line buffer_dist (shape orig) = Inr L
           \<and> r = locate_well buffer_dist L well)))"
proof (intro conjI ballI impI)
  fix r
  let ?run = "snd (Create2Dpoints_SWL buffer_dist vertical_exaggeration wwpt xsln)"
  assume "r \<in> set (wwpt_merge ?run)"
  from Create2Dpoints_SWL_wwpt_merge [OF this] obtain line well where
    line: "line \<in> set (xsln_temp ?run)" and well: "well \<in> set wwpt"
    and e: "etid well = et_id line"
    and r: "r = locate_well buffer_dist (shape line) well"
    by blast
  from Create2Dpoints_SWL_xsln_temp [OF line] obtain orig :: xsln_row where
    orig: "orig \<in> set xsln" and o: "et_id line = et_id orig"
      "extend_line buffer_dist (shape orig) = Inr (shape line)"
    by auto
  have 1: "et_id orig = etid well" using e o(1) by simp
  have 2: "etid r = etid well" by (simp add: r locate_well_fields)
  show "\<exists>orig\<in>set xsln. \<exists>well\<in>set wwpt. \<exists>L.
        et_id orig = etid well \<and> etid r = etid well
        \<and> extend_line buffer_dist (shape orig) = Inr L
        \<and> r = locate_well buffer_dist L well"
    by (intro bexI [OF _ orig] bexI [OF _ well] exI [of _ "shape line"] conjI 1 2 o(2) r)
next
  fix r
  let ?run = "snd (CreateConspys buffer_dist vertical_exaggeration conspy wwpt xsln)"
  assume "r \<in> set (c_wwpt_merge ?run)"
  from CreateConspys_wwpt_merge [OF this] obtain line well where
    line: "line \<in> set (c_xsln_temp ?run)" and well: "well \<in> set wwpt"
    and e: "etid well = et_id line"
    and r: "r = locate_well buffer_dist (shape line) well"
    by blast
  from CreateConspys_xsln_temp [OF line] obtain orig :: xsln_row where
    orig: "orig \<in> set xsln" and o: "et_id line = et_id orig"
      "extend_line buffer_dist (shape orig) = Inr (shape line)"
    by auto
  have 1: "et_id orig = etid well" using e o(1) by simp
  have 2: "etid r = etid well" by (simp add: r locate_well_fields)
  show "\<exists>orig\<in>set xsln. \<exists>well\<in>set wwpt. \<exists>L.
        et_id orig = etid well \<and> etid r = etid well
        \<and> extend_line buffer_dist (shape orig) = Inr L
        \<and> r = locate_well buffer_dist L well"
    by (intro bexI [OF _ orig] bexI [OF _ well] exI [of _ "shape line"] conjI 1 2 o(2) r)
next
  fix well line
  assume c: "fst (Create2Dpoints_SWL buffer_dist vertical_exaggeration wwpt xsln) = None"
    and w: "well \<in> set wwpt" and l: "line \<in> set xsln" and e: "etid well = et_id line"
  from Create2Dpoints_SWL_completed [OF c] obtain lines where
    x: "extend_lines buffer_dist xsln [] = (None, lines)"
    and m: "wwpt_merge (snd (Create2Dpoints_SWL buffer_dist vertical_exaggeration wwpt xsln))
        = merge_files (near_analysis buffer_dist wwpt lines [])"
    by blast
  show "\<exists>r\<in>set (wwpt_merge (snd (Create2Dpoints_SWL buffer_dist vertical_exaggeration wwpt xsln))).
         \<exists>orig\<in>set xsln. \<exists>L.
           et_id orig = etid well \<and> extend_line buffer_dist (shape orig) = Inr L
           \<and> r = locate_well buffer_dist L well"
    unfolding m by (rule located_wells_extended [OF x l w e])
next
  fix well line
  assume c: "fst (CreateConspys buffer_dist vertical_exaggeration conspy wwpt xsln) = None"
    and w: "well \<in> set wwpt" and l: "line \<in> set xsln" and e: "etid well = et_id line"
  from CreateConspys_completed [OF c] obtain lines where
    x: "extend_lines buffer_dist xsln [] = (None, lines)"
    and m: "c_wwpt_merge (snd (CreateConspys buffer_dist vertical_exaggeration conspy wwpt xsln))
        = merge_files (near_analysis buffer_dist wwpt lines [])"
    by blast
  show "\<exists>r\<in>set (c_wwpt_merge (snd (CreateConspys buffer_dist vertical_exaggeration conspy wwpt xsln))).
         \<exists>orig\<in>set xsln. \<exists>L.
           et_id orig = etid well \<and> extend_line buffer_dist (shape orig) = Inr L
           \<and> r = locate_well buffer_dist L well"
    unfolding m by (rule located_wells_extended [OF x l w e])
qed

theorem projection_line_by_et_id_witness:
  "merged_1 \<in> set (wwpt_merge (snd (Create2Dpoints_SWL 5 1 [well_1] [line_A, line_B])))
   \<and> (\<exists>orig\<in>set [line_A, line_B]. \<exists>L.
        et_id orig = etid well_1 \<and> etid merged_1 = etid well_1
        \<and> extend_line 5 (shape orig) = Inr L \<and> merged_1 = locate_well 5 L well_1)
   \<and> fst (Create2Dpoints_SWL 5 1 [well_1] [line_A, line_B]) = None
   \<and> etid well_1 = et_id line_A
   \<and> (\<exists>r\<in>set (wwpt_merge (snd (Create2Dpoints_SWL 5 1 [well_1] [line_A, line_B]))).
       \<exists>orig\<in>set [line_A, line_B]. \<exists>L.
         et_id orig = etid well_1 \<and> extend_line 5 (shape orig) = Inr L
         \<and> r = locate_well 5 L well_1)"
proof -
  have m: "merged_1 \<in> set (wwpt_merge (snd (Create2Dpoints_SWL 5 1 [well_1] [line_A, line_B])))"
    by (simp add: Create2Dpoints_SWL_valid extend_lines_A_B near_analysis_A_B merge_files_def
        del: extend_lines.simps near_analysis.simps)
  have c: "fst (Create2Dpoints_SWL 5 1 [well_1] [line_A, line_B]) = None"
    by (simp add: Create2Dpoints_SWL_valid extend_lines_A_B
        del: extend_lines.simps near_analysis.simps)
  have e: "etid well_1 = et_id line_A" by (simp add: well_1_def line_A_def)
  note t = projection_line_by_et_id [where buffer_dist = 5 and vertical_exaggeration = 1
      and wwpt = "[well_1]" and xsln = "[line_A, line_B]"]
  from t [THEN conjunct1, rule_format, OF m]
  have 1: "\<exists>orig\<in>set [line_A, line_B]. \<exists>L.
        et_id orig = etid well_1 \<and> etid merged_1 = etid well_1
        \<and> extend_line 5 (shape orig) = Inr L \<and> merged_1 = locate_well 5 L well_1"
    by simp
  from t [THEN conjunct2, THEN conjunct2, THEN conjunct1, rule_format, OF c, of well_1 line_A] e
  have 2: "\<exists>r\<in>set (wwpt_merge (snd (Create2Dpoints_SWL 5 1 [well_1] [line_A, line_B]))).
       \<exists>orig\<in>set [line_A, line_B]. \<exists>L.
         et_id orig = etid well_1 \<and> extend_line 5 (shape orig) = Inr L
         \<and> r = locate_well 5 L well_1"
    by simp
  show ?thesis using m 1 c e 2 by blast
qed

text \<open>The claim as stated fails on the example well with two lines: the well carries the
  id of line A and is located on it, at distance 3, although line B is at distance 1.\<close>

theorem nearer_line_not_chosen:
  "wwpt_merge (snd (Create2Dpoints_SWL 5 1 [well_1] [line_A, line_B])) = [merged_1]
   \<and> c_wwpt_merge (snd (CreateConspys 5 1 [record_1] [well_1] [line_A, line_B])) = [merged_1]
   \<and> xy merged_1 = xy well_1
   \<and> (NEAR_X merged_1, NEAR_Y merged_1) = fst (snd (nearest_on_line [(-5, 0), (15, 0)] (xy well_1)))
   \<and> NEAR_DIST merged_1 = 3
   \<and> fst (nearest_on_line (shape line_A) (xy well_1)) = 3
   \<and> fst (nearest_on_line (shape line_B) (xy well_1)) = 1
   \<and> fst (nearest_on_line [(-5, 4), (15, 4)] (xy well_1)) = 1"
proof -
  have 1: "wwpt_merge (snd (Create2Dpoints_SWL 5 1 [well_1] [line_A, line_B])) = [merged_1]"
    by (simp add: Create2Dpoints_SWL_valid extend_lines_A_B near_analysis_A_B merge_files_def
        del: extend_lines.simps near_analysis.simps)
  have 2: "c_wwpt_merge (snd (CreateConspys 5 1 [record_1] [well_1] [line_A, line_B])) = [merged_1]"
    by (simp add: CreateConspys_valid extend_lines_A_B near_analysis_A_B merge_files_def Let_def
        del: extend_lines.simps near_analysis.simps)
  have 3: "xy merged_1 = xy well_1" by (simp add: merged_1_def well_1_def)
  have 4: "(NEAR_X merged_1, NEAR_Y merged_1)
      = fst (snd (nearest_on_line [(-5, 0), (15, 0)] (xy well_1)))"
    by (simp add: merged_1_def well_1_def geometry_eval)
  have 5: "NEAR_DIST merged_1 = 3" by (simp add: merged_1_def)
  have 6: "fst (nearest_on_line (shape line_A) (xy well_1)) = 3"
    by (simp add: line_A_def well_1_def geometry_eval)
  have 7: "fst (nearest_on_line (shape line_B) (xy well_1)) = 1"
    by (simp add: line_B_def well_1_def geometry_eval)
  have 8: "fst (nearest_on_line [(-5, 4), (15, 4)] (xy well_1)) = 1"
    by (simp add: well_1_def geometry_eval)
  show ?thesis using 1 2 3 4 5 6 7 8 by blast
qed

subsection \<open>Line extension\<close>


















lemma closest_on_segment_start: "closest_on_segment a b a = a"
  by (simp add: closest_on_segment_def Let_def)









subsection \<open>The along-line position\<close>























end
